theory Spec2Isabelle
  imports Complex_Main
begin

section \<open>Python values, exceptions and the log\<close>

text \<open>
  The program is one Python module, \<^verbatim>\<open>etl_script.py\<close>. Its records are untyped
  values decoded from JSON, so the model has one type of Python values. A float is the
  rational number it denotes; \<open>PObject\<close> stands for any object the module only ever
  passes to \<^verbatim>\<open>str\<close> (a tuple, set or bytes literal that \<^verbatim>\<open>ast.literal_eval\<close> can
  produce), named by its \<^verbatim>\<open>repr\<close>.
\<close>

datatype py_exn =
    TypeError | ValueError | SyntaxError | KeyError | IndexError | AttributeError
  | MemoryError | RecursionError | ZeroDivisionError | Psycopg2Error

record datetime =
  dt_year :: nat
  dt_month :: nat
  dt_day :: nat
  dt_hour :: nat
  dt_minute :: nat
  dt_second :: nat
  dt_microsecond :: nat

datatype pyval =
    PNone
  | PBool bool
  | PInt int
  | PFloat rat
  | PStr string
  | PList "pyval list"
  | PDict "(pyval \<times> pyval) list"
  | PDatetime datetime
  | PObject string

text \<open>The dict that \<^verbatim>\<open>validate_record\<close> returns: seven fixed keys.\<close>

record attempt =
  user_id :: string
  oauth_consumer_key :: string
  lis_result_sourcedid :: string
  lis_outcome_service_url :: string
  is_correct :: pyval
  attempt_type :: pyval
  created_at :: pyval

text \<open>The dict that \<^verbatim>\<open>get_daily_statistics\<close> returns.\<close>

record daily_statistics =
  date :: string
  total_attempts :: int
  successful_attempts :: int
  failed_attempts :: int
  run_attempts :: int
  unique_users :: int
  run_count :: int
  submit_count :: int
  success_rate :: pyval

text \<open>
  Every call of \<^verbatim>\<open>logger.info\<close>, \<^verbatim>\<open>logger.warning\<close> and \<^verbatim>\<open>logger.error\<close> appends
  one entry to the log. The source's messages are Russian f-strings; an entry keeps the
  level, which message it is, and the values interpolated into it.
\<close>

datatype level = INFO | WARNING | ERROR

datatype message =
    PassbackNotDict pyval
  | PassbackParseError py_exn
  | MissingField string
  | BadAttemptType pyval
  | BadIsCorrect pyval
  | BadDateFormat pyval
  | ValidationError py_exn
  | ProcessingStart
  | Processed nat nat
  | TableReady
  | TableError py_exn
  | NoRecordsToLoad
  | LoadStart nat
  | Loaded int
  | LoadError py_exn
  | Statistics daily_statistics
  | StatisticsError py_exn
  | SheetsDisabled
  | GspreadMissing
  | CredentialsMissing
  | SheetsUploadStart
  | SheetsUploaded
  | SheetsError
  | SpreadsheetCreated
  | EtlStart
  | Period string string
  | ApiRequest string string
  | Received nat
  | ApiStatusError int
  | RequestError
  | JsonError
  | FetchFailed
  | FetchedNothing
  | NothingAfterValidation
  | EtlDone int
  | RunSuccess
  | CriticalError py_exn
  | RunFailed
  | RunTime

type_synonym log = "(level \<times> message) list"

text \<open>
  A computation either raises (\<open>Inl\<close>) or returns (\<open>Inr\<close>), and in both cases has
  written some log entries.
\<close>

type_synonym 'a res = "(py_exn + 'a) \<times> log"

definition ret :: "'a \<Rightarrow> 'a res" where
  "ret x = (Inr x, [])"

definition raise :: "py_exn \<Rightarrow> 'a res" where
  "raise e = (Inl e, [])"

definition lift :: "py_exn + 'a \<Rightarrow> 'a res" where
  "lift r = (r, [])"

definition logged :: "level \<Rightarrow> message \<Rightarrow> 'a res \<Rightarrow> 'a res" where
  "logged lv msg m = (fst m, (lv, msg) # snd m)"

definition bind :: "'a res \<Rightarrow> ('a \<Rightarrow> 'b res) \<Rightarrow> 'b res" where
  "bind m f =
     (case fst m of
        Inl e \<Rightarrow> (Inl e, snd m)
      | Inr x \<Rightarrow> (fst (f x), snd m @ snd (f x)))"

text \<open>\<^verbatim>\<open>try: m except <classes>: h\<close>, for the exception classes \<open>caught\<close>.\<close>

definition try_except :: "'a res \<Rightarrow> (py_exn \<Rightarrow> bool) \<Rightarrow> (py_exn \<Rightarrow> 'a res) \<Rightarrow> 'a res" where
  "try_except m caught h =
     (case fst m of
        Inl e \<Rightarrow> (if caught e then (fst (h e), snd m @ snd (h e)) else m)
      | Inr x \<Rightarrow> m)"

section \<open>The standard library the module calls\<close>

text \<open>
  \<^verbatim>\<open>ast.literal_eval\<close>, \<^verbatim>\<open>datetime.strptime\<close> and \<^verbatim>\<open>repr\<close> belong to the Python
  runtime, not to the repository. The module's functions take them as an environment,
  and the theorems below hold for every environment.
  \<^item> \<open>literal_eval\<close>: the value of \<^verbatim>\<open>ast.literal_eval(x)\<close>, or the exception it raises;
  \<^item> \<open>strptime\<close>: the value of \<^verbatim>\<open>datetime.strptime(s, fmt)\<close> for a string \<open>s\<close>, or the
    exception it raises;
  \<^item> \<open>repr_of\<close>: \<^verbatim>\<open>str(x)\<close> for a float, a container or a datetime.
\<close>

record pylib =
  literal_eval :: "pyval \<Rightarrow> py_exn + pyval"
  strptime :: "string \<Rightarrow> string \<Rightarrow> py_exn + datetime"
  repr_of :: "pyval \<Rightarrow> string"

text \<open>\<^verbatim>\<open>datetime.strptime(x, fmt)\<close> on any value: a non-string is a \<^verbatim>\<open>TypeError\<close>.\<close>

definition py_strptime :: "pylib \<Rightarrow> pyval \<Rightarrow> string \<Rightarrow> py_exn + datetime" where
  "py_strptime lib x fmt = (case x of PStr s \<Rightarrow> strptime lib s fmt | _ \<Rightarrow> Inl TypeError)"

text \<open>Decimal digits of an integer, as \<^verbatim>\<open>str\<close> prints them.\<close>

fun digits10 :: "nat \<Rightarrow> string" where
  "digits10 n =
     (if n < 10 then [''0123456789'' ! n]
      else digits10 (n div 10) @ [''0123456789'' ! (n mod 10)])"

definition str_int :: "int \<Rightarrow> string" where
  "str_int i = (if i < 0 then CHR ''-'' # digits10 (nat (- i)) else digits10 (nat i))"

definition py_str :: "pylib \<Rightarrow> pyval \<Rightarrow> string" where
  "py_str lib x =
     (case x of
        PStr s \<Rightarrow> s
      | PNone \<Rightarrow> ''None''
      | PBool b \<Rightarrow> (if b then ''True'' else ''False'')
      | PInt i \<Rightarrow> str_int i
      | PObject r \<Rightarrow> r
      | _ \<Rightarrow> repr_of lib x)"

text \<open>
  \<^verbatim>\<open>key in x\<close> for a string key: key membership in a dict, element membership in a
  list, substring test on a string, \<^verbatim>\<open>TypeError\<close> on a value that is not a container.
\<close>

fun is_substring :: "string \<Rightarrow> string \<Rightarrow> bool" where
  "is_substring k [] = (k = [])"
| "is_substring k (c # cs) = (take (length k) (c # cs) = k \<or> is_substring k cs)"

definition py_in :: "string \<Rightarrow> pyval \<Rightarrow> py_exn + bool" where
  "py_in k x =
     (case x of
        PDict kvs \<Rightarrow> Inr (PStr k \<in> set (map fst kvs))
      | PList xs \<Rightarrow> Inr (PStr k \<in> set xs)
      | PStr s \<Rightarrow> Inr (is_substring k s)
      | _ \<Rightarrow> Inl TypeError)"

text \<open>\<^verbatim>\<open>x[key]\<close> for a string key.\<close>

definition py_getitem :: "pyval \<Rightarrow> string \<Rightarrow> py_exn + pyval" where
  "py_getitem x k =
     (case x of
        PDict kvs \<Rightarrow> (case map_of kvs (PStr k) of Some v \<Rightarrow> Inr v | None \<Rightarrow> Inl KeyError)
      | _ \<Rightarrow> Inl TypeError)"

text \<open>\<^verbatim>\<open>x.get(key)\<close>: only a dict has the method.\<close>

definition py_get :: "pyval \<Rightarrow> string \<Rightarrow> py_exn + pyval" where
  "py_get x k =
     (case x of
        PDict kvs \<Rightarrow> (case map_of kvs (PStr k) of Some v \<Rightarrow> Inr v | None \<Rightarrow> Inr PNone)
      | _ \<Rightarrow> Inl AttributeError)"

text \<open>\<^verbatim>\<open>d.get(key, '')\<close> on the decoded parameter dict.\<close>

definition dict_get :: "(pyval \<times> pyval) list \<Rightarrow> string \<Rightarrow> pyval" where
  "dict_get kvs k = (case map_of kvs (PStr k) of Some v \<Rightarrow> v | None \<Rightarrow> PStr [])"

text \<open>\<^verbatim>\<open>isinstance(x, int)\<close> holds for booleans too: \<^verbatim>\<open>bool\<close> is a subclass of \<^verbatim>\<open>int\<close>.\<close>

definition isinstance_int :: "pyval \<Rightarrow> bool" where
  "isinstance_int x = (case x of PInt i \<Rightarrow> True | PBool b \<Rightarrow> True | _ \<Rightarrow> False)"

definition isinstance_bool :: "pyval \<Rightarrow> bool" where
  "isinstance_bool x = (case x of PBool b \<Rightarrow> True | _ \<Rightarrow> False)"

text \<open>\<^verbatim>\<open>bool(x)\<close> for an instance of \<^verbatim>\<open>int\<close>.\<close>

definition py_bool :: "pyval \<Rightarrow> bool" where
  "py_bool x = (case x of PInt i \<Rightarrow> i \<noteq> 0 | PBool b \<Rightarrow> b | _ \<Rightarrow> True)"

section \<open>Record validator\<close>

text \<open>
  \<^verbatim>\<open>parse_passback_params\<close>: \<^verbatim>\<open>None\<close> and the string \<^verbatim>\<open>'None'\<close> give the empty dict;
  otherwise the value goes to \<^verbatim>\<open>ast.literal_eval\<close>. The handler catches
  \<^verbatim>\<open>ValueError\<close> and \<^verbatim>\<open>SyntaxError\<close> only.
\<close>

definition parse_passback_params :: "pylib \<Rightarrow> pyval \<Rightarrow> (pyval \<times> pyval) list res" where
  "parse_passback_params lib passback_str =
     try_except
       (if passback_str = PNone \<or> passback_str = PStr ''None'' then ret []
        else bind (lift (literal_eval lib passback_str)) (\<lambda>passback_dict.
          case passback_dict of
            PDict kvs \<Rightarrow> ret kvs
          | _ \<Rightarrow> logged WARNING (PassbackNotDict passback_dict) (ret [])))
       (\<lambda>e. e = ValueError \<or> e = SyntaxError)
       (\<lambda>e. logged WARNING (PassbackParseError e) (ret []))"

definition required :: "string list" where
  "required = [''lti_user_id'', ''passback_params'', ''attempt_type'', ''created_at'']"

text \<open>
  The loop over \<open>required\<close>: the first field that is not in the record, \<open>None\<close> when
  all are there; the membership test itself may raise.
\<close>

fun first_missing :: "pyval \<Rightarrow> string list \<Rightarrow> py_exn + string option" where
  "first_missing record [] = Inr None"
| "first_missing record (field # others) =
     (case py_in field record of
        Inl e \<Rightarrow> Inl e
      | Inr present \<Rightarrow> (if \<not> present then Inr (Some field) else first_missing record others))"

definition fmt_micro :: string where
  "fmt_micro = ''%Y-%m-%d %H:%M:%S.%f''"

definition fmt_sec :: string where
  "fmt_sec = ''%Y-%m-%d %H:%M:%S''"

text \<open>
  The two nested \<^verbatim>\<open>try\<close> blocks around \<^verbatim>\<open>strptime\<close>: \<open>True\<close> when one of the formats
  parses, \<open>False\<close> when both raise \<^verbatim>\<open>ValueError\<close>; any other exception leaves the
  blocks. The parsed value is dropped in both.
\<close>

definition date_parses :: "pylib \<Rightarrow> pyval \<Rightarrow> py_exn + bool" where
  "date_parses lib x =
     (case py_strptime lib x fmt_micro of
        Inr d \<Rightarrow> Inr True
      | Inl e \<Rightarrow>
          (if e = ValueError then
             (case py_strptime lib x fmt_sec of
                Inr d \<Rightarrow> Inr True
              | Inl e' \<Rightarrow> (if e' = ValueError then Inr False else Inl e'))
           else Inl e))"

text \<open>The body of the outer \<^verbatim>\<open>try\<close> of \<^verbatim>\<open>validate_record\<close>.\<close>

definition validate_body :: "pylib \<Rightarrow> pyval \<Rightarrow> attempt option res" where
  "validate_body lib record =
     bind (lift (first_missing record required)) (\<lambda>missing.
     case missing of
       Some field \<Rightarrow> logged WARNING (MissingField field) (ret None)
     | None \<Rightarrow>
     bind (lift (py_getitem record ''passback_params'')) (\<lambda>passback_str.
     bind (parse_passback_params lib passback_str) (\<lambda>passback_dict.
     bind (lift (py_getitem record ''attempt_type'')) (\<lambda>atype.
     if atype \<notin> set [PStr ''run'', PStr ''submit'']
     then logged WARNING (BadAttemptType atype) (ret None)
     else
     bind (lift (py_get record ''is_correct'')) (\<lambda>flag.
     if flag \<noteq> PNone \<and> \<not> isinstance_int flag \<and> \<not> isinstance_bool flag
     then logged WARNING (BadIsCorrect flag) (ret None)
     else
     bind (lift (py_getitem record ''created_at'')) (\<lambda>created.
     bind (lift (date_parses lib created)) (\<lambda>parsed.
     if \<not> parsed
     then logged WARNING (BadDateFormat created) (ret None)
     else
     bind (lift (py_getitem record ''lti_user_id'')) (\<lambda>uid.
     ret (Some \<lparr>
       user_id = py_str lib uid,
       oauth_consumer_key = py_str lib (dict_get passback_dict ''oauth_consumer_key''),
       lis_result_sourcedid = py_str lib (dict_get passback_dict ''lis_result_sourcedid''),
       lis_outcome_service_url = py_str lib (dict_get passback_dict ''lis_outcome_service_url''),
       is_correct =
         (if flag \<noteq> PNone \<and> isinstance_int flag then PBool (py_bool flag) else flag),
       attempt_type = atype,
       created_at = created \<rparr>)))))))))"

text \<open>
  \<^verbatim>\<open>validate_record\<close>: the body inside \<^verbatim>\<open>try ... except Exception\<close>; the handler logs
  the exception and returns \<^verbatim>\<open>None\<close>.
\<close>

definition validate_record :: "pylib \<Rightarrow> pyval \<Rightarrow> attempt option res" where
  "validate_record lib record =
     try_except (validate_body lib record) (\<lambda>e. True)
       (\<lambda>e. logged ERROR (ValidationError e) (ret None))"

section \<open>Batch processor\<close>

text \<open>
  The \<^verbatim>\<open>for\<close> loop of \<^verbatim>\<open>process_data\<close> with its two accumulators. A returned dict has
  seven keys and is truthy, so \<^verbatim>\<open>if valid\<close> is the test for \<^verbatim>\<open>None\<close>.
\<close>

fun process_loop :: "pylib \<Rightarrow> pyval list \<Rightarrow> attempt list \<Rightarrow> nat \<Rightarrow> (attempt list \<times> nat) res" where
  "process_loop lib [] validated skipped = ret (validated, skipped)"
| "process_loop lib (record # rest) validated skipped =
     (case validate_record lib record of
        (Inl e, lg) \<Rightarrow> (Inl e, lg)
      | (Inr None, lg) \<Rightarrow>
          (fst (process_loop lib rest validated (skipped + 1)),
           lg @ snd (process_loop lib rest validated (skipped + 1)))
      | (Inr (Some valid), lg) \<Rightarrow>
          (fst (process_loop lib rest (validated @ [valid]) skipped),
           lg @ snd (process_loop lib rest (validated @ [valid]) skipped)))"

text \<open>\<^verbatim>\<open>process_data\<close> returns the list alone; the two counts go to the log.\<close>

definition process_data :: "pylib \<Rightarrow> pyval list \<Rightarrow> attempt list res" where
  "process_data lib raw_data =
     logged INFO ProcessingStart
       (bind (process_loop lib raw_data [] 0) (\<lambda>(validated, skipped).
          logged INFO (Processed (length validated) skipped) (ret validated)))"

section \<open>Floating point\<close>

text \<open>
  \<^verbatim>\<open>a / b\<close> on integers, \<^verbatim>\<open>x * 100\<close> and \<^verbatim>\<open>round(x, 2)\<close> on floats are each the
  exact result rounded to the nearest binary64 value, ties to even. The values met
  here lie between \<open>2\<^sup>-\<^sup>6\<^sup>3\<close> and \<open>2\<^sup>7\<^sup>0\<close> (a count is a 64-bit integer of the
  server), well inside the normal range, so the exponent is not bounded.
\<close>

definition round_half_even :: "rat \<Rightarrow> int" where
  "round_half_even r =
     (let f = \<lfloor>r\<rfloor>; d = r - of_int f
      in if d < 1 / 2 then f else if 1 / 2 < d then f + 1 else if even f then f else f + 1)"

definition pow2 :: "int \<Rightarrow> rat" where
  "pow2 k = (if 0 \<le> k then 2 ^ nat k else 1 / 2 ^ nat (- k))"

text \<open>The number of binary digits of \<open>n\<close>.\<close>

function bit_length :: "int \<Rightarrow> nat" where
  "bit_length n = (if n \<le> 0 then 0 else Suc (bit_length (n div 2)))"
  by pat_completeness auto
termination
  by (relation "measure nat") auto

text \<open>The exponent \<open>e\<close> with \<open>2\<^sup>e \<le> r < 2\<^sup>e\<^sup>+\<^sup>1\<close>, for \<open>r > 0\<close>.\<close>

definition binade :: "rat \<Rightarrow> int" where
  "binade r =
     (let (p, q) = quotient_of r;
          k = int (bit_length p) - int (bit_length q)
      in if pow2 k \<le> r then k else k - 1)"

definition to_double :: "rat \<Rightarrow> rat" where
  "to_double r =
     (if r = 0 then 0
      else let e = binade \<bar>r\<bar> - 52
           in of_int (round_half_even (r / pow2 e)) * pow2 e)"

definition py_truediv :: "int \<Rightarrow> int \<Rightarrow> py_exn + rat" where
  "py_truediv a b = (if b = 0 then Inl ZeroDivisionError else Inr (to_double (of_int a / of_int b)))"

definition float_mul :: "rat \<Rightarrow> int \<Rightarrow> rat" where
  "float_mul x n = to_double (x * of_int n)"

text \<open>\<^verbatim>\<open>round(x, 2)\<close> on a float: the nearest hundredth, then the nearest double.\<close>

definition round2 :: "rat \<Rightarrow> rat" where
  "round2 x = to_double (of_int (round_half_even (x * 100)) / 100)"

section \<open>Store gateway\<close>

text \<open>
  The table \<^verbatim>\<open>grader_attempts\<close>, as the server holds it. The columns \<^verbatim>\<open>id\<close> and
  \<^verbatim>\<open>loaded_at\<close> are assigned by the server and never read by the module.
\<close>

record db_row =
  row_user_id :: string
  row_oauth_consumer_key :: string
  row_lis_result_sourcedid :: string
  row_lis_outcome_service_url :: string
  row_is_correct :: "bool option"
  row_attempt_type :: string
  row_created_at :: datetime

record db =
  table_exists :: bool
  grader_attempts :: "db_row list"

text \<open>
  The server is outside the repository as well. What the module depends on:
  \<^item> \<open>pg_row_in\<close>: the row an \<^verbatim>\<open>INSERT\<close> stores for one parameter tuple (the driver's
    adaptation and the server's conversion to the column types), or the exception
    \<^verbatim>\<open>cursor.execute\<close> raises for it;
  \<^item> \<open>pg_date_in\<close>: the date the server reads from the query parameter, \<open>None\<close> when it
    is not a date.
  A \<open>db_fault\<close> says where, in one use of a connection, the driver raises
  \<^verbatim>\<open>psycopg2.Error\<close> for a reason that is not in the data: at \<^verbatim>\<open>connect\<close>, at the
  \<open>k\<close>-th \<^verbatim>\<open>execute\<close>, or at \<^verbatim>\<open>commit\<close>.
\<close>

record pgserver =
  pg_row_in :: "attempt \<Rightarrow> py_exn + db_row"
  pg_date_in :: "string \<Rightarrow> (nat \<times> nat \<times> nat) option"

datatype db_fault = NoFault | ConnectFault | ExecuteFault nat | CommitFault

text \<open>
  \<^verbatim>\<open>create_database_table\<close>: \<^verbatim>\<open>CREATE TABLE IF NOT EXISTS\<close> and the three indexes,
  committed; \<^verbatim>\<open>psycopg2.Error\<close> is logged and raised again.
\<close>

definition create_database_table :: "db_fault \<Rightarrow> db \<Rightarrow> unit res \<times> db" where
  "create_database_table flt d =
     (if flt = ConnectFault \<or> flt = ExecuteFault 0 \<or> flt = CommitFault
      then (logged ERROR (TableError Psycopg2Error) (raise Psycopg2Error), d)
      else (logged INFO TableReady (ret ()), d\<lparr>table_exists := True\<rparr>))"

text \<open>
  A cursor inside an open transaction: the rows inserted and not yet committed, and
  \<^verbatim>\<open>rowcount\<close>, the number of rows of the last statement executed.
\<close>

record cursor =
  pending :: "db_row list"
  rowcount :: int

fun rows_in :: "pgserver \<Rightarrow> attempt list \<Rightarrow> py_exn + db_row list" where
  "rows_in srv [] = Inr []"
| "rows_in srv (r # rs) =
     (case pg_row_in srv r of
        Inl e \<Rightarrow> Inl e
      | Inr row \<Rightarrow> (case rows_in srv rs of Inl e \<Rightarrow> Inl e | Inr rows \<Rightarrow> Inr (row # rows)))"

text \<open>One multi-row \<^verbatim>\<open>INSERT\<close> statement.\<close>

definition execute_insert :: "pgserver \<Rightarrow> db \<Rightarrow> cursor \<Rightarrow> attempt list \<Rightarrow> py_exn + cursor" where
  "execute_insert srv d cur page =
     (if \<not> table_exists d then Inl Psycopg2Error
      else case rows_in srv page of
        Inl e \<Rightarrow> Inl e
      | Inr rows \<Rightarrow> Inr \<lparr>pending = pending cur @ rows, rowcount = int (length rows)\<rparr>)"

text \<open>
  \<^verbatim>\<open>psycopg2.extras.execute_values(cur, sql, argslist)\<close> cuts \<open>argslist\<close> into pages of
  \<^verbatim>\<open>page_size\<close> tuples and executes one statement for each page; the module leaves
  \<^verbatim>\<open>page_size\<close> at its default, 100.
\<close>

function paginate :: "nat \<Rightarrow> 'a list \<Rightarrow> 'a list list" where
  "paginate n xs = (if xs = [] \<or> n = 0 then [] else take n xs # paginate n (drop n xs))"
  by pat_completeness auto
termination
  by (relation "measure (\<lambda>(n, xs). length xs)") auto

definition page_size :: nat where
  "page_size = 100"

fun execute_pages :: "pgserver \<Rightarrow> db_fault \<Rightarrow> db \<Rightarrow> nat \<Rightarrow> cursor \<Rightarrow> attempt list list \<Rightarrow> py_exn + cursor" where
  "execute_pages srv flt d k cur [] = Inr cur"
| "execute_pages srv flt d k cur (page # pages) =
     (if flt = ExecuteFault k then Inl Psycopg2Error
      else case execute_insert srv d cur page of
        Inl e \<Rightarrow> Inl e
      | Inr cur' \<Rightarrow> execute_pages srv flt d (Suc k) cur' pages)"

definition execute_values :: "pgserver \<Rightarrow> db_fault \<Rightarrow> db \<Rightarrow> cursor \<Rightarrow> attempt list \<Rightarrow> py_exn + cursor" where
  "execute_values srv flt d cur argslist = execute_pages srv flt d 0 cur (paginate page_size argslist)"

text \<open>
  The body of the \<^verbatim>\<open>try\<close> of \<^verbatim>\<open>load_data_to_database\<close>. The connection is a context
  manager: leaving the \<^verbatim>\<open>with\<close> block by an exception rolls the transaction back, so
  the table is as before; \<^verbatim>\<open>conn.commit()\<close> appends the pending rows.
\<close>

definition load_body :: "pgserver \<Rightarrow> db_fault \<Rightarrow> attempt list \<Rightarrow> db \<Rightarrow> int res \<times> db" where
  "load_body srv flt records d =
     (if flt = ConnectFault then (raise Psycopg2Error, d)
      else case execute_values srv flt d \<lparr>pending = [], rowcount = - 1\<rparr> records of
        Inl e \<Rightarrow> (raise e, d)
      | Inr cur \<Rightarrow>
          (if flt = CommitFault then (raise Psycopg2Error, d)
           else (logged INFO (Loaded (rowcount cur)) (ret (rowcount cur)),
                 d\<lparr>grader_attempts := grader_attempts d @ pending cur\<rparr>)))"

definition load_data_to_database :: "pgserver \<Rightarrow> db_fault \<Rightarrow> attempt list \<Rightarrow> db \<Rightarrow> int res \<times> db" where
  "load_data_to_database srv flt records d =
     (if records = [] then (logged WARNING NoRecordsToLoad (ret 0), d)
      else
        (logged INFO (LoadStart (length records))
           (try_except (fst (load_body srv flt records d)) (\<lambda>e. e = Psycopg2Error)
              (\<lambda>e. logged ERROR (LoadError e) (raise e))),
         snd (load_body srv flt records d)))"

text \<open>
  The aggregate query. It has no \<^verbatim>\<open>GROUP BY\<close>, so its result set is one row of seven
  counts over the rows whose \<^verbatim>\<open>DATE(created_at)\<close> is the given date.
\<close>

definition date_of :: "datetime \<Rightarrow> nat \<times> nat \<times> nat" where
  "date_of t = (dt_year t, dt_month t, dt_day t)"

definition count_where :: "('a \<Rightarrow> bool) \<Rightarrow> 'a list \<Rightarrow> int" where
  "count_where P xs = int (length (filter P xs))"

definition aggregate_row :: "nat \<times> nat \<times> nat \<Rightarrow> db_row list \<Rightarrow> int list" where
  "aggregate_row day rows =
     (let sel = filter (\<lambda>r. date_of (row_created_at r) = day) rows
      in [ int (length sel),
           count_where (\<lambda>r. row_is_correct r = Some True) sel,
           count_where (\<lambda>r. row_is_correct r = Some False) sel,
           count_where (\<lambda>r. row_is_correct r = None) sel,
           int (length (remdups (map row_user_id sel))),
           count_where (\<lambda>r. row_attempt_type r = ''run'') sel,
           count_where (\<lambda>r. row_attempt_type r = ''submit'') sel ])"

definition execute_statistics :: "pgserver \<Rightarrow> db_fault \<Rightarrow> string \<Rightarrow> db \<Rightarrow> py_exn + int list list" where
  "execute_statistics srv flt day d =
     (if flt = ExecuteFault 0 \<or> \<not> table_exists d then Inl Psycopg2Error
      else case pg_date_in srv day of
        None \<Rightarrow> Inl Psycopg2Error
      | Some ymd \<Rightarrow> Inr [aggregate_row ymd (grader_attempts d)])"

text \<open>\<^verbatim>\<open>cursor.fetchone()\<close>: the first row of the result set, \<^verbatim>\<open>None\<close> when it is empty.\<close>

definition fetchone :: "'a list \<Rightarrow> 'a option" where
  "fetchone result_set = (case result_set of [] \<Rightarrow> None | r # rs \<Rightarrow> Some r)"

text \<open>
  \<^verbatim>\<open>round((result[1] / result[6] * 100) if result[6] > 0 else 0, 2)\<close>; \<^verbatim>\<open>round\<close> of the
  integer \<^verbatim>\<open>0\<close> is the integer \<^verbatim>\<open>0\<close>.
\<close>

definition success_rate_of :: "int \<Rightarrow> int \<Rightarrow> py_exn + pyval" where
  "success_rate_of success submit =
     (if submit > 0 then
        (case py_truediv success submit of
           Inl e \<Rightarrow> Inl e
         | Inr q \<Rightarrow> Inr (PFloat (round2 (float_mul q 100))))
      else Inr (PInt 0))"

text \<open>The dict \<^verbatim>\<open>stats\<close>, from the date, the fetched row and the rounded rate.\<close>

definition stats_dict :: "string \<Rightarrow> int list \<Rightarrow> pyval \<Rightarrow> daily_statistics" where
  "stats_dict day result rate =
     \<lparr>date = day,
      total_attempts = result ! 0,
      successful_attempts = result ! 1,
      failed_attempts = result ! 2,
      run_attempts = result ! 3,
      unique_users = result ! 4,
      run_count = result ! 5,
      submit_count = result ! 6,
      success_rate = rate\<rparr>"

text \<open>
  The body of the \<^verbatim>\<open>try\<close> of \<^verbatim>\<open>get_daily_statistics\<close>. A tuple of seven counts is
  truthy, so \<^verbatim>\<open>if result\<close> is the test for \<^verbatim>\<open>None\<close>. A fault at \<^verbatim>\<open>commit\<close> here is
  one at the end of the \<^verbatim>\<open>with\<close> block, which replaces the value being returned.
\<close>

definition statistics_body :: "pgserver \<Rightarrow> db_fault \<Rightarrow> string \<Rightarrow> db \<Rightarrow> daily_statistics option res" where
  "statistics_body srv flt day d =
     (if flt = ConnectFault then raise Psycopg2Error
      else
        bind (lift (execute_statistics srv flt day d)) (\<lambda>result_set.
        bind
          (case fetchone result_set of
             Some result \<Rightarrow>
               bind (lift (success_rate_of (result ! 1) (result ! 6))) (\<lambda>rate.
                 let stats = stats_dict day result rate
                 in logged INFO (Statistics stats) (ret (Some stats)))
           | None \<Rightarrow> ret None)
          (\<lambda>value. if flt = CommitFault then raise Psycopg2Error else ret value)))"

definition get_daily_statistics :: "pgserver \<Rightarrow> db_fault \<Rightarrow> string \<Rightarrow> db \<Rightarrow> daily_statistics option res" where
  "get_daily_statistics srv flt day d =
     try_except (statistics_body srv flt day d) (\<lambda>e. e = Psycopg2Error)
       (\<lambda>e. logged ERROR (StatisticsError e) (ret None))"

section \<open>Publishing and the orchestrator\<close>

text \<open>
  The spreadsheet service is external: \<^verbatim>\<open>upload_to_google_sheets\<close> is modelled by its
  three guards and by what the service does, which the environment gives.
\<close>

record sheets_env =
  gsheets_enabled :: bool
  gsheets_available :: bool
  credentials_exist :: bool
  spreadsheet_found :: bool
  sheets_fault :: bool

definition upload_to_google_sheets :: "sheets_env \<Rightarrow> daily_statistics \<Rightarrow> bool res" where
  "upload_to_google_sheets sh stats =
     (if \<not> gsheets_enabled sh then logged INFO SheetsDisabled (ret False)
      else if \<not> gsheets_available sh then logged WARNING GspreadMissing (ret False)
      else if \<not> credentials_exist sh then logged WARNING CredentialsMissing (ret False)
      else
        logged INFO SheetsUploadStart
          (if sheets_fault sh then logged ERROR SheetsError (ret False)
           else if \<not> spreadsheet_found sh
           then logged INFO SpreadsheetCreated (logged INFO SheetsUploaded (ret True))
           else logged INFO SheetsUploaded (ret True)))"

text \<open>
  \<^verbatim>\<open>fetch_data_from_api\<close>: the HTTP call either raises one of the two exception
  classes the function catches, or gives a status code and the decoded JSON array.
\<close>

datatype http_outcome = RequestException | JSONDecodeError | Response int "pyval list"

definition fetch_data_from_api :: "http_outcome \<Rightarrow> string \<Rightarrow> string \<Rightarrow> pyval list option res" where
  "fetch_data_from_api http start_date end_date =
     logged INFO (ApiRequest start_date end_date)
       (case http of
          Response status_code data \<Rightarrow>
            (if status_code = 200 then logged INFO (Received (length data)) (ret (Some data))
             else logged ERROR (ApiStatusError status_code) (ret None))
        | RequestException \<Rightarrow> logged ERROR RequestError (ret None)
        | JSONDecodeError \<Rightarrow> logged ERROR JsonError (ret None))"

text \<open>\<^verbatim>\<open>s.split()[0]\<close>: the first run of characters that are not (ASCII) whitespace.\<close>

definition is_space :: "char \<Rightarrow> bool" where
  "is_space c = (c \<in> set [CHR '' '', CHR 0x09, CHR 0x0A, CHR 0x0B, CHR 0x0C, CHR 0x0D,
                          CHR 0x1C, CHR 0x1D, CHR 0x1E, CHR 0x1F])"

definition split_first :: "string \<Rightarrow> py_exn + string" where
  "split_first s =
     (let t = takeWhile (\<lambda>c. \<not> is_space c) (dropWhile is_space s)
      in if t = [] then Inl IndexError else Inr t)"

text \<open>Steps that read or change the table, in sequence; an exception ends the sequence.\<close>

type_synonym 'a io = "db \<Rightarrow> 'a res \<times> db"

definition io_pure :: "'a res \<Rightarrow> 'a io" where
  "io_pure m d = (m, d)"

definition io_read :: "(db \<Rightarrow> 'a res) \<Rightarrow> 'a io" where
  "io_read f d = (f d, d)"

definition io_bind :: "'a io \<Rightarrow> ('a \<Rightarrow> 'b io) \<Rightarrow> 'b io" where
  "io_bind m f d =
     (case fst (fst (m d)) of
        Inl e \<Rightarrow> ((Inl e, snd (fst (m d))), snd (m d))
      | Inr x \<Rightarrow>
          ((fst (fst (f x (snd (m d)))), snd (fst (m d)) @ snd (fst (f x (snd (m d))))),
           snd (f x (snd (m d)))))"

text \<open>
  Everything outside the module that one run meets: the two libraries, the HTTP
  response, the faults of the three uses of the database, the spreadsheet service and
  the configured window.
\<close>

record env =
  python :: pylib
  postgres :: pgserver
  api :: http_outcome
  create_fault :: db_fault
  load_fault :: db_fault
  stats_fault :: db_fault
  sheets :: sheets_env
  START_DATE :: string
  END_DATE :: string

text \<open>The body of the \<^verbatim>\<open>try\<close> of \<^verbatim>\<open>main\<close>.\<close>

definition main_body :: "env \<Rightarrow> unit io" where
  "main_body env =
     io_bind (io_pure (logged INFO (Period (START_DATE env) (END_DATE env))
                (fetch_data_from_api (api env) (START_DATE env) (END_DATE env)))) (\<lambda>fetched.
     case fetched of
       None \<Rightarrow> io_pure (logged ERROR FetchFailed (ret ()))
     | Some raw_data \<Rightarrow>
     if length raw_data = 0 then io_pure (logged INFO FetchedNothing (ret ()))
     else
     io_bind (io_pure (process_data (python env) raw_data)) (\<lambda>validated_data.
     if length validated_data = 0 then io_pure (logged WARNING NothingAfterValidation (ret ()))
     else
     io_bind (create_database_table (create_fault env)) (\<lambda>u.
     io_bind (load_data_to_database (postgres env) (load_fault env) validated_data) (\<lambda>loaded_count.
     io_bind (io_pure (logged INFO (EtlDone loaded_count) (lift (split_first (START_DATE env)))))
       (\<lambda>date_for_stats.
     io_bind (io_read (get_daily_statistics (postgres env) (stats_fault env) date_for_stats)) (\<lambda>stats.
     io_bind
       (case stats of
          Some st \<Rightarrow> io_pure (bind (upload_to_google_sheets (sheets env) st) (\<lambda>b. ret ()))
        | None \<Rightarrow> io_pure (ret ()))
       (\<lambda>u. io_pure (logged INFO RunSuccess (ret ())))))))))"

text \<open>
  \<^verbatim>\<open>main\<close>: the first log line, the body, the handler of \<^verbatim>\<open>except Exception\<close> and the
  \<^verbatim>\<open>finally\<close> line. The result is the log of the run and the table after it.
\<close>

definition main :: "env \<Rightarrow> db \<Rightarrow> log \<times> db" where
  "main env d =
     (let out = main_body env d
      in ((INFO, EtlStart) # snd (fst out)
            @ (case fst (fst out) of
                 Inl e \<Rightarrow> [(ERROR, CriticalError e), (INFO, RunFailed)]
               | Inr u \<Rightarrow> [])
            @ [(INFO, RunTime)],
          snd out))"

section \<open>A sample environment\<close>

text \<open>
  To run the module on concrete records the library functions need values. The
  following are excerpts of CPython and PostgreSQL: each entry is what the real
  function gives at that argument. Arguments outside the excerpt get the last line's
  answer; the examples below never use it.
\<close>

definition sample_literal_eval :: "pyval \<Rightarrow> py_exn + pyval" where
  "sample_literal_eval x =
     (if x = PStr ''{'oauth_consumer_key': 'abc'}''
        then Inr (PDict [(PStr ''oauth_consumer_key'', PStr ''abc'')])
      else if x = PStr ''[1, 2]'' then Inr (PList [PInt 1, PInt 2])
      else if x = PStr ''not a dict'' then Inl SyntaxError
      else if x = PStr ''{[1]: 2}'' then Inl TypeError
      else Inl ValueError)"

definition sample_strptime :: "string \<Rightarrow> string \<Rightarrow> py_exn + datetime" where
  "sample_strptime s fmt =
     (if s = ''2023-05-31 10:00:00.123456'' \<and> fmt = ''%Y-%m-%d %H:%M:%S.%f''
        then Inr \<lparr>dt_year = 2023, dt_month = 5, dt_day = 31, dt_hour = 10, dt_minute = 0,
                  dt_second = 0, dt_microsecond = 123456\<rparr>
      else if s = ''2023-05-31 10:00:00'' \<and> fmt = ''%Y-%m-%d %H:%M:%S''
        then Inr \<lparr>dt_year = 2023, dt_month = 5, dt_day = 31, dt_hour = 10, dt_minute = 0,
                  dt_second = 0, dt_microsecond = 0\<rparr>
      else if s = ''2023-06-01 09:30:00'' \<and> fmt = ''%Y-%m-%d %H:%M:%S''
        then Inr \<lparr>dt_year = 2023, dt_month = 6, dt_day = 1, dt_hour = 9, dt_minute = 30,
                  dt_second = 0, dt_microsecond = 0\<rparr>
      else Inl ValueError)"

definition sample_repr :: "pyval \<Rightarrow> string" where
  "sample_repr x = (if x = PFloat 75 then ''75.0'' else if x = PList [] then ''[]'' else ''{}'')"

definition sample_lib :: pylib where
  "sample_lib = \<lparr>literal_eval = sample_literal_eval, strptime = sample_strptime,
                  repr_of = sample_repr\<rparr>"

text \<open>A raw record with all five fields, as the API sends it.\<close>

definition raw_record :: "pyval \<Rightarrow> pyval \<Rightarrow> pyval \<Rightarrow> pyval \<Rightarrow> pyval \<Rightarrow> pyval" where
  "raw_record uid passback atype flag created =
     PDict [(PStr ''lti_user_id'', uid), (PStr ''passback_params'', passback),
            (PStr ''attempt_type'', atype), (PStr ''is_correct'', flag),
            (PStr ''created_at'', created)]"

definition plain_record :: pyval where
  "plain_record =
     raw_record (PStr ''u1'') (PStr ''None'') (PStr ''run'') PNone (PStr ''2023-05-31 10:00:00'')"

definition plain_attempt :: attempt where
  "plain_attempt =
     \<lparr>user_id = ''u1'', oauth_consumer_key = [], lis_result_sourcedid = [],
      lis_outcome_service_url = [], is_correct = PNone, attempt_type = PStr ''run'',
      created_at = PStr ''2023-05-31 10:00:00''\<rparr>"

definition plain_time :: datetime where
  "plain_time = \<lparr>dt_year = 2023, dt_month = 5, dt_day = 31, dt_hour = 10, dt_minute = 0,
                  dt_second = 0, dt_microsecond = 0\<rparr>"

text \<open>
  The dict \<^verbatim>\<open>get_daily_statistics\<close> builds from the date and the fetched row: the
  counts and, by \<open>success_rate_of\<close>, the rounded rate.
\<close>

definition statistics_of :: "string \<Rightarrow> int list \<Rightarrow> daily_statistics" where
  "statistics_of day result =
     stats_dict day result
       (if result ! 6 > 0
        then PFloat (round2 (float_mul (to_double (of_int (result ! 1) / of_int (result ! 6))) 100))
        else PInt 0)"

text \<open>
  The accepted subset of a batch, in input order: the records for which
  \<^verbatim>\<open>validate_record\<close> returns a dict.
\<close>

definition accepted_in_order :: "pylib \<Rightarrow> pyval list \<Rightarrow> attempt list" where
  "accepted_in_order lib raws =
     List.map_filter (\<lambda>r. case fst (validate_record lib r) of Inl e \<Rightarrow> None | Inr v \<Rightarrow> v) raws"

text \<open>
  A sample server: the row stored for an attempt whose \<^verbatim>\<open>created_at\<close> is one of the
  sample strings, with the length limits of the two \<^verbatim>\<open>VARCHAR(255)\<close> columns, and the
  two dates of the samples.
\<close>

definition sample_row_in :: "attempt \<Rightarrow> py_exn + db_row" where
  "sample_row_in a =
     (case (is_correct a, attempt_type a, created_at a) of
        (flag, PStr atype, PStr created) \<Rightarrow>
          (if (flag = PNone \<or> isinstance_bool flag) \<and> length (user_id a) \<le> 255
              \<and> length (oauth_consumer_key a) \<le> 255 \<and> length atype \<le> 50 then
             (case (sample_strptime created fmt_micro, sample_strptime created fmt_sec) of
                (Inr t, _) \<Rightarrow> Inr \<lparr>row_user_id = user_id a,
                    row_oauth_consumer_key = oauth_consumer_key a,
                    row_lis_result_sourcedid = lis_result_sourcedid a,
                    row_lis_outcome_service_url = lis_outcome_service_url a,
                    row_is_correct = (case flag of PBool b \<Rightarrow> Some b | _ \<Rightarrow> None),
                    row_attempt_type = atype, row_created_at = t\<rparr>
              | (Inl e, Inr t) \<Rightarrow> Inr \<lparr>row_user_id = user_id a,
                    row_oauth_consumer_key = oauth_consumer_key a,
                    row_lis_result_sourcedid = lis_result_sourcedid a,
                    row_lis_outcome_service_url = lis_outcome_service_url a,
                    row_is_correct = (case flag of PBool b \<Rightarrow> Some b | _ \<Rightarrow> None),
                    row_attempt_type = atype, row_created_at = t\<rparr>
              | (Inl e, Inl e') \<Rightarrow> Inl Psycopg2Error)
           else Inl Psycopg2Error)
      | _ \<Rightarrow> Inl Psycopg2Error)"

definition sample_date_in :: "string \<Rightarrow> (nat \<times> nat \<times> nat) option" where
  "sample_date_in s =
     (if s = ''2023-05-31'' then Some (2023, 5, 31)
      else if s = ''2023-06-01'' then Some (2023, 6, 1)
      else None)"

definition sample_srv :: pgserver where
  "sample_srv = \<lparr>pg_row_in = sample_row_in, pg_date_in = sample_date_in\<rparr>"

definition plain_row :: db_row where
  "plain_row =
     \<lparr>row_user_id = ''u1'', row_oauth_consumer_key = [], row_lis_result_sourcedid = [],
      row_lis_outcome_service_url = [], row_is_correct = None, row_attempt_type = ''run'',
      row_created_at = plain_time\<rparr>"

definition empty_db :: db where
  "empty_db = \<lparr>table_exists = False, grader_attempts = []\<rparr>"

text \<open>
  A sample run: the API sends the given records, nothing faults, publishing is
  switched off, and the window is the default one of the module.
\<close>

definition sample_env :: "pyval list \<Rightarrow> env" where
  "sample_env raws =
     \<lparr>python = sample_lib, postgres = sample_srv, api = Response 200 raws,
      create_fault = NoFault, load_fault = NoFault, stats_fault = NoFault,
      sheets = \<lparr>gsheets_enabled = False, gsheets_available = True, credentials_exist = True,
                 spreadsheet_found = True, sheets_fault = False\<rparr>,
      START_DATE = ''2023-05-31 00:00:00.000000'',
      END_DATE = ''2023-05-31 23:59:59.999999''\<rparr>"

text \<open>
  The table of the specification's example: ten rows of one day, four submits (three
  correct, one incorrect) and six runs.
\<close>

definition example_rows :: "db_row list" where
  "example_rows =
     replicate 3 (plain_row\<lparr>row_is_correct := Some True, row_attempt_type := ''submit''\<rparr>)
     @ [plain_row\<lparr>row_is_correct := Some False, row_attempt_type := ''submit''\<rparr>]
     @ replicate 6 plain_row"

text \<open>Three submits of one day, one of them correct: a rate that needs rounding.\<close>

definition one_of_three_rows :: "db_row list" where
  "one_of_three_rows =
     [plain_row\<lparr>row_is_correct := Some True, row_attempt_type := ''submit''\<rparr>,
      plain_row\<lparr>row_is_correct := Some False, row_attempt_type := ''submit''\<rparr>,
      plain_row\<lparr>row_is_correct := Some False, row_attempt_type := ''submit''\<rparr>]"

text \<open>
  A run gets as far as the aggregate step: the API answers with records of which some
  are accepted, the schema is ensured, the load returns \<open>n\<close> with the log \<open>lg\<close> and
  leaves the table \<open>d'\<close>, and the configured start has the first word \<open>day\<close>.
\<close>

definition reaches_aggregate ::
  "env \<Rightarrow> db \<Rightarrow> pyval list \<Rightarrow> int \<Rightarrow> log \<Rightarrow> db \<Rightarrow> string \<Rightarrow> bool" where
  "reaches_aggregate env d raws n lg d' day \<longleftrightarrow>
     api env = Response 200 raws \<and>
     accepted_in_order (python env) raws \<noteq> [] \<and>
     create_fault env = NoFault \<and>
     load_data_to_database (postgres env) (load_fault env)
       (accepted_in_order (python env) raws) (d\<lparr>table_exists := True\<rparr>) = ((Inr n, lg), d') \<and>
     split_first (START_DATE env) = Inr day"

text \<open>The log of such a run up to the aggregate step.\<close>

definition log_before_aggregate :: "env \<Rightarrow> pyval list \<Rightarrow> int \<Rightarrow> log \<Rightarrow> log" where
  "log_before_aggregate env raws n lg =
     [(INFO, EtlStart),
      (INFO, Period (START_DATE env) (END_DATE env)),
      (INFO, ApiRequest (START_DATE env) (END_DATE env)),
      (INFO, Received (length raws))]
     @ snd (process_data (python env) raws)
     @ [(INFO, TableReady)] @ lg @ [(INFO, EtlDone n)]"


text \<open>A valid record of the first of June, outside the default window's start day.\<close>

definition june_record :: pyval where
  "june_record =
     raw_record (PStr ''u1'') (PStr ''None'') (PStr ''run'') PNone (PStr ''2023-06-01 09:30:00'')"

definition june_attempt :: attempt where
  "june_attempt = plain_attempt\<lparr>created_at := PStr ''2023-06-01 09:30:00''\<rparr>"

definition june_row :: db_row where
  "june_row =
     plain_row\<lparr>row_created_at :=
       \<lparr>dt_year = 2023, dt_month = 6, dt_day = 1, dt_hour = 9, dt_minute = 30,
        dt_second = 0, dt_microsecond = 0\<rparr>\<rparr>"

section \<open>Basic facts about computations\<close>

lemma fst_ret [simp]: "fst (ret x) = Inr x"
  by (simp add: ret_def)

lemma snd_ret [simp]: "snd (ret x) = []"
  by (simp add: ret_def)

lemma fst_raise [simp]: "fst (raise e) = Inl e"
  by (simp add: raise_def)

lemma snd_raise [simp]: "snd (raise e) = []"
  by (simp add: raise_def)

lemma fst_lift [simp]: "fst (lift r) = r"
  by (simp add: lift_def)

lemma snd_lift [simp]: "snd (lift r) = []"
  by (simp add: lift_def)

lemma fst_logged [simp]: "fst (logged lv msg m) = fst m"
  by (simp add: logged_def)

lemma snd_logged [simp]: "snd (logged lv msg m) = (lv, msg) # snd m"
  by (simp add: logged_def)

lemma bind_returns:
  "fst (bind m f) = Inr y \<longleftrightarrow> (\<exists>x. fst m = Inr x \<and> fst (f x) = Inr y)"
  by (cases "fst m") (simp_all add: bind_def)

lemma bind_lift_Inr [simp]: "bind (lift (Inr x)) f = f x"
  by (simp add: bind_def lift_def)

lemma bind_lift_Inl [simp]: "bind (lift (Inl e)) f = (Inl e, [])"
  by (simp add: bind_def lift_def)

lemma try_except_returns:
  "fst (try_except m c h) = Inr y \<longleftrightarrow>
     fst m = Inr y \<or> (\<exists>e. fst m = Inl e \<and> c e \<and> fst (h e) = Inr y)"
  by (cases "fst m") (auto simp: try_except_def)

lemma try_except_raised:
  "fst m = Inl e \<Longrightarrow> c e \<Longrightarrow> try_except m c h = (fst (h e), snd m @ snd (h e))"
  by (simp add: try_except_def)

section \<open>The validator never raises\<close>

text \<open>
  C4. For every raw record, of any shape, \<^verbatim>\<open>validate_record\<close> returns: it never
  raises. When the body of its \<^verbatim>\<open>try\<close> raises an exception, the call logs that
  exception as an error and returns \<^verbatim>\<open>None\<close>, the rejection.
\<close>

theorem validate_record_never_raises:
  "(\<exists>r. fst (validate_record lib record) = Inr r) \<and>
   (\<forall>e. fst (validate_body lib record) = Inl e \<longrightarrow>
      validate_record lib record =
        (Inr None, snd (validate_body lib record) @ [(ERROR, ValidationError e)]))"
proof (intro conjI allI impI)
  show "\<exists>r. fst (validate_record lib record) = Inr r"
    by (cases "fst (validate_body lib record)")
      (simp_all add: validate_record_def try_except_def)
next
  fix e
  assume "fst (validate_body lib record) = Inl e"
  then show "validate_record lib record =
      (Inr None, snd (validate_body lib record) @ [(ERROR, ValidationError e)])"
    by (simp add: validate_record_def try_except_raised)
qed

lemma validate_body_not_container:
  "validate_body lib (PInt i) = (Inl TypeError, [])"
  by (simp add: validate_body_def required_def py_in_def)

theorem validate_record_never_raises_witness:
  "fst (validate_body sample_lib (PInt 3)) = Inl TypeError \<and>
   validate_record sample_lib (PInt 3) = (Inr None, [(ERROR, ValidationError TypeError)])"
  using validate_record_never_raises [of sample_lib "PInt 3"]
  by (simp add: validate_body_not_container)

section \<open>What an accepted record looks like\<close>

lemma bind_returnsE:
  assumes "fst (bind m f) = Inr y"
  obtains x where "fst m = Inr x" and "fst (f x) = Inr y"
  using assms by (auto simp: bind_returns)

text \<open>
  Reading the body of \<^verbatim>\<open>validate_record\<close> backwards: a returned dict means that every
  check passed, and fixes each of the seven values.
\<close>

lemma validate_body_accepts:
  assumes "fst (validate_body lib record) = Inr (Some a)"
  shows "\<exists>passback_str passback_dict atype flag created uid.
     first_missing record required = Inr None
   \<and> py_getitem record ''passback_params'' = Inr passback_str
   \<and> fst (parse_passback_params lib passback_str) = Inr passback_dict
   \<and> py_getitem record ''attempt_type'' = Inr atype
   \<and> (atype = PStr ''run'' \<or> atype = PStr ''submit'')
   \<and> py_get record ''is_correct'' = Inr flag
   \<and> (flag = PNone \<or> isinstance_int flag \<or> isinstance_bool flag)
   \<and> py_getitem record ''created_at'' = Inr created
   \<and> date_parses lib created = Inr True
   \<and> py_getitem record ''lti_user_id'' = Inr uid
   \<and> a = \<lparr>user_id = py_str lib uid,
       oauth_consumer_key = py_str lib (dict_get passback_dict ''oauth_consumer_key''),
       lis_result_sourcedid = py_str lib (dict_get passback_dict ''lis_result_sourcedid''),
       lis_outcome_service_url = py_str lib (dict_get passback_dict ''lis_outcome_service_url''),
       is_correct = (if flag \<noteq> PNone \<and> isinstance_int flag then PBool (py_bool flag) else flag),
       attempt_type = atype,
       created_at = created \<rparr>"
  using assms unfolding validate_body_def
  apply (erule_tac bind_returnsE)
  apply (simp split: option.splits)
  apply (elim bind_returnsE)
  apply (simp split: if_splits)
  apply (elim bind_returnsE)
  apply (simp split: if_splits)
   apply (elim bind_returnsE)
   apply (simp split: if_splits)
   apply (elim bind_returnsE)
   apply simp
   apply blast
  apply (elim bind_returnsE)
  apply (simp split: if_splits)
  apply (elim bind_returnsE)
  apply simp
  apply blast
  done

lemma validate_record_accepts:
  "fst (validate_record lib record) = Inr (Some a) \<longleftrightarrow>
   fst (validate_body lib record) = Inr (Some a)"
  by (simp add: validate_record_def try_except_returns)

lemma validate_record_total:
  "fst (validate_record lib record) = Inr None \<or>
   (\<exists>a. fst (validate_record lib record) = Inr (Some a))"
proof (cases "fst (validate_body lib record)")
  case (Inl e)
  then show ?thesis by (simp add: validate_record_def try_except_def)
next
  case (Inr r)
  then show ?thesis by (cases r) (simp_all add: validate_record_def try_except_def)
qed

lemma date_parses_True:
  assumes "date_parses lib created = Inr True"
  shows "\<exists>s. created = PStr s \<and>
     ((\<exists>d. strptime lib s fmt_micro = Inr d) \<or>
      (strptime lib s fmt_micro = Inl ValueError \<and> (\<exists>d. strptime lib s fmt_sec = Inr d)))"
proof (cases created)
  case (PStr s)
  with assms show ?thesis
    by (auto simp: date_parses_def py_strptime_def split: sum.splits if_splits)
qed (use assms in \<open>simp_all add: date_parses_def py_strptime_def\<close>)


lemmas validate_unfold =
  validate_record_def validate_body_def try_except_def bind_def required_def py_in_def
  py_getitem_def py_get_def parse_passback_params_def date_parses_def py_strptime_def
  fmt_micro_def fmt_sec_def isinstance_int_def isinstance_bool_def py_bool_def py_str_def
  dict_get_def raw_record_def logged_def ret_def lift_def

lemmas sample_unfold =
  sample_lib_def sample_literal_eval_def sample_strptime_def sample_repr_def

lemma validate_plain_record:
  "validate_record sample_lib plain_record = (Inr (Some plain_attempt), [])"
  by (simp add: plain_record_def plain_attempt_def validate_unfold sample_unfold)

section \<open>The creation timestamp\<close>

text \<open>
  C1, as the specification states it: the \<open>created_at\<close> of an accepted record is the
  parsed timestamp, not the raw string. The code parses the string to check it and
  then stores the string: for the record below \<^verbatim>\<open>strptime\<close> gives a datetime, and
  \<open>created_at\<close> is the string that was sent.
\<close>

theorem created_at_parsed_counterexample:
  "fst (validate_record sample_lib plain_record) = Inr (Some plain_attempt) \<and>
   strptime sample_lib ''2023-05-31 10:00:00'' fmt_sec = Inr plain_time \<and>
   created_at plain_attempt = PStr ''2023-05-31 10:00:00'' \<and>
   created_at plain_attempt \<noteq> PDatetime plain_time"
  by (simp add: validate_plain_record)
    (simp add: plain_attempt_def plain_time_def fmt_sec_def sample_unfold)

text \<open>
  C1, amended: the \<open>created_at\<close> of an accepted record is the raw string of the
  record, unchanged, and that string parses under the microsecond format or, when
  that raises \<^verbatim>\<open>ValueError\<close>, under the second format.
\<close>

theorem created_at_is_raw_string:
  assumes "fst (validate_record lib record) = Inr (Some a)"
  shows "\<exists>s. py_getitem record ''created_at'' = Inr (PStr s) \<and> created_at a = PStr s \<and>
     ((\<exists>d. strptime lib s fmt_micro = Inr d) \<or>
      (strptime lib s fmt_micro = Inl ValueError \<and> (\<exists>d. strptime lib s fmt_sec = Inr d)))"
proof -
  from assms have "fst (validate_body lib record) = Inr (Some a)"
    by (simp add: validate_record_accepts)
  then obtain created where c: "py_getitem record ''created_at'' = Inr created"
    and p: "date_parses lib created = Inr True" and a: "created_at a = created"
    by (auto dest!: validate_body_accepts)
  from date_parses_True [OF p] c a show ?thesis by auto
qed

theorem created_at_is_raw_string_witness:
  "fst (validate_record sample_lib plain_record) = Inr (Some plain_attempt) \<and>
   (\<exists>s. py_getitem plain_record ''created_at'' = Inr (PStr s) \<and>
        created_at plain_attempt = PStr s \<and>
        ((\<exists>d. strptime sample_lib s fmt_micro = Inr d) \<or>
         (strptime sample_lib s fmt_micro = Inl ValueError \<and>
          (\<exists>d. strptime sample_lib s fmt_sec = Inr d))))"
  using created_at_is_raw_string [of sample_lib plain_record plain_attempt]
  by (simp add: validate_plain_record)

section \<open>The nested parameters\<close>

text \<open>
  What \<^verbatim>\<open>parse_passback_params\<close> tolerates: a \<^verbatim>\<open>ValueError\<close> or \<^verbatim>\<open>SyntaxError\<close> of
  \<^verbatim>\<open>ast.literal_eval\<close>, and a value that is not a dict, each give the empty dict and
  one warning.
\<close>

lemma parse_passback_params_tolerates:
  assumes "x \<noteq> PNone" and "x \<noteq> PStr ''None''"
    and "literal_eval lib x = Inl ValueError \<or> literal_eval lib x = Inl SyntaxError \<or>
         (\<exists>v. literal_eval lib x = Inr v \<and> (\<forall>kvs. v \<noteq> PDict kvs))"
  shows "fst (parse_passback_params lib x) = Inr [] \<and>
         (\<exists>msg. snd (parse_passback_params lib x) = [(WARNING, msg)])"
  using assms
  by (auto simp: parse_passback_params_def try_except_def bind_def split: pyval.splits)

text \<open>Any other exception of \<^verbatim>\<open>ast.literal_eval\<close> leaves the function.\<close>

lemma parse_passback_params_raises:
  assumes "x \<noteq> PNone" and "x \<noteq> PStr ''None''" and "literal_eval lib x = Inl e"
    and "e \<noteq> ValueError" and "e \<noteq> SyntaxError"
  shows "parse_passback_params lib x = (Inl e, [])"
  using assms by (simp add: parse_passback_params_def try_except_def)

text \<open>
  C5. The specification says that a parameter string which fails to parse never
  rejects the record. \<^verbatim>\<open>ast.literal_eval("{[1]: 2}")\<close> raises \<^verbatim>\<open>TypeError\<close> (a list is
  not hashable), which \<^verbatim>\<open>parse_passback_params\<close> does not catch: the handler of
  \<^verbatim>\<open>validate_record\<close> catches it and rejects the record. The same record with the
  string \<^verbatim>\<open>'None'\<close> in that field is accepted.
\<close>

theorem unparsable_passback_rejects_record:
  "validate_record sample_lib
     (raw_record (PStr ''u1'') (PStr ''{[1]: 2}'') (PStr ''run'') PNone
        (PStr ''2023-05-31 10:00:00''))
     = (Inr None, [(ERROR, ValidationError TypeError)]) \<and>
   validate_record sample_lib
     (raw_record (PStr ''u1'') (PStr ''None'') (PStr ''run'') PNone
        (PStr ''2023-05-31 10:00:00''))
     = (Inr (Some plain_attempt), [])"
  by (simp add: plain_attempt_def validate_unfold sample_unfold)

section \<open>The correctness flag\<close>

text \<open>
  C7. In an accepted record the flag read by \<^verbatim>\<open>record.get('is_correct')\<close> (\<^verbatim>\<open>None\<close>
  when the key is absent) is \<^verbatim>\<open>None\<close>, an integer or a boolean, and \<open>is_correct\<close> is
  \<^verbatim>\<open>None\<close>, the integer's truth value (false for 0, true otherwise), or the boolean
  itself. A flag of any other type rejects the record.
\<close>

theorem is_correct_coercion:
  "(fst (validate_record lib record) = Inr (Some a) \<longrightarrow>
      (\<exists>flag. py_get record ''is_correct'' = Inr flag \<and>
         (flag = PNone \<and> is_correct a = PNone \<or>
          (\<exists>i. flag = PInt i \<and> is_correct a = PBool (i \<noteq> 0)) \<or>
          (\<exists>b. flag = PBool b \<and> is_correct a = PBool b)))) \<and>
   (py_get record ''is_correct'' = Inr other \<and> other \<noteq> PNone \<and>
    (\<forall>i. other \<noteq> PInt i) \<and> (\<forall>b. other \<noteq> PBool b) \<longrightarrow>
      fst (validate_record lib record) = Inr None) \<and>
   (map_of kvs (PStr ''is_correct'') = None \<longrightarrow>
      py_get (PDict kvs) ''is_correct'' = Inr PNone)"
proof (intro conjI impI)
  assume "fst (validate_record lib record) = Inr (Some a)"
  then have "fst (validate_body lib record) = Inr (Some a)"
    by (simp add: validate_record_accepts)
  then obtain flag where g: "py_get record ''is_correct'' = Inr flag"
    and t: "flag = PNone \<or> isinstance_int flag \<or> isinstance_bool flag"
    and a: "is_correct a =
      (if flag \<noteq> PNone \<and> isinstance_int flag then PBool (py_bool flag) else flag)"
    by (auto dest!: validate_body_accepts)
  from t a have "flag = PNone \<and> is_correct a = PNone \<or>
      (\<exists>i. flag = PInt i \<and> is_correct a = PBool (i \<noteq> 0)) \<or>
      (\<exists>b. flag = PBool b \<and> is_correct a = PBool b)"
    by (cases flag) (simp_all add: isinstance_int_def isinstance_bool_def py_bool_def)
  with g show "\<exists>flag. py_get record ''is_correct'' = Inr flag \<and>
      (flag = PNone \<and> is_correct a = PNone \<or>
       (\<exists>i. flag = PInt i \<and> is_correct a = PBool (i \<noteq> 0)) \<or>
       (\<exists>b. flag = PBool b \<and> is_correct a = PBool b))"
    by blast
next
  assume o: "py_get record ''is_correct'' = Inr other \<and> other \<noteq> PNone \<and>
    (\<forall>i. other \<noteq> PInt i) \<and> (\<forall>b. other \<noteq> PBool b)"
  have "\<not> (\<exists>a. fst (validate_record lib record) = Inr (Some a))"
  proof
    assume "\<exists>a. fst (validate_record lib record) = Inr (Some a)"
    then obtain a' where "fst (validate_body lib record) = Inr (Some a')"
      by (auto simp: validate_record_accepts)
    then obtain flag where "py_get record ''is_correct'' = Inr flag"
      and "flag = PNone \<or> isinstance_int flag \<or> isinstance_bool flag"
      by (auto dest!: validate_body_accepts)
    with o show False
      by (cases other) (auto simp: isinstance_int_def isinstance_bool_def)
  qed
  with validate_record_total [of lib "record"]
  show "fst (validate_record lib record) = Inr None" by blast
next
  assume "map_of kvs (PStr ''is_correct'') = None"
  then show "py_get (PDict kvs) ''is_correct'' = Inr PNone"
    by (simp add: py_get_def)
qed

text \<open>
  The specification's examples: the flag 1 gives true, the flag \<^verbatim>\<open>"yes"\<close> rejects, and
  a record with no \<open>is_correct\<close> key reads \<^verbatim>\<open>None\<close>.
\<close>

theorem is_correct_coercion_witness:
  "fst (validate_record sample_lib
         (raw_record (PStr ''u1'') (PStr ''None'') (PStr ''submit'') (PInt 1)
            (PStr ''2023-05-31 10:00:00'')))
     = Inr (Some (plain_attempt\<lparr>is_correct := PBool True, attempt_type := PStr ''submit''\<rparr>)) \<and>
   py_get (raw_record (PStr ''u1'') (PStr ''None'') (PStr ''submit'') (PStr ''yes'')
            (PStr ''2023-05-31 10:00:00'')) ''is_correct'' = Inr (PStr ''yes'') \<and>
   fst (validate_record sample_lib
         (raw_record (PStr ''u1'') (PStr ''None'') (PStr ''submit'') (PStr ''yes'')
            (PStr ''2023-05-31 10:00:00''))) = Inr None \<and>
   py_get (PDict [(PStr ''lti_user_id'', PStr ''u1'')]) ''is_correct'' = Inr PNone"
  using
    is_correct_coercion [of sample_lib
      "raw_record (PStr ''u1'') (PStr ''None'') (PStr ''submit'') (PInt 1)
         (PStr ''2023-05-31 10:00:00'')"
      "plain_attempt\<lparr>is_correct := PBool True, attempt_type := PStr ''submit''\<rparr>"
      "PStr ''yes''" "[(PStr ''lti_user_id'', PStr ''u1'')]"]
    is_correct_coercion [of sample_lib
      "raw_record (PStr ''u1'') (PStr ''None'') (PStr ''submit'') (PStr ''yes'')
         (PStr ''2023-05-31 10:00:00'')"
      plain_attempt "PStr ''yes''" "[]"]
  by (simp add: plain_attempt_def validate_unfold sample_unfold)

section \<open>The accepted entity\<close>





section \<open>The loop of the batch processor\<close>

lemma validate_record_cases:
  obtains (rejected) "fst (validate_record lib record) = Inr None"
  | (accepted) a where "fst (validate_record lib record) = Inr (Some a)"
  using validate_record_total [of lib "record"] by blast

text \<open>
  The loop appends the accepted records to \<open>validated\<close> in input order, counts the
  others in \<open>skipped\<close>, and writes the log of each call in input order.
\<close>

lemma process_loop_result:
  "process_loop lib raws validated skipped =
     (Inr (validated @ accepted_in_order lib raws,
           skipped + (length raws - length (accepted_in_order lib raws))),
      concat (map (\<lambda>r. snd (validate_record lib r)) raws))"
proof (induction raws arbitrary: validated skipped)
  case Nil
  show ?case by (simp add: accepted_in_order_def ret_def)
next
  case (Cons raw rest)
  have le: "length (accepted_in_order lib rest) \<le> length rest"
    by (simp add: accepted_in_order_def map_filter_def)
  show ?case
  proof (cases rule: validate_record_cases [of lib raw])
    case rejected
    then obtain lg where v: "validate_record lib raw = (Inr None, lg)"
      by (cases "validate_record lib raw") simp
    from rejected have a: "accepted_in_order lib (raw # rest) = accepted_in_order lib rest"
      by (simp add: accepted_in_order_def)
    show ?thesis using le by (simp add: v a Cons.IH Suc_diff_le)
  next
    case (accepted a)
    then obtain lg where v: "validate_record lib raw = (Inr (Some a), lg)"
      by (cases "validate_record lib raw") simp
    from accepted have a: "accepted_in_order lib (raw # rest) = a # accepted_in_order lib rest"
      by (simp add: accepted_in_order_def)
    show ?thesis by (simp add: v a Cons.IH)
  qed
qed

lemma process_data_result:
  "process_data lib raws =
     (Inr (accepted_in_order lib raws),
      (INFO, ProcessingStart) # concat (map (\<lambda>r. snd (validate_record lib r)) raws)
        @ [(INFO, Processed (length (accepted_in_order lib raws))
                    (length raws - length (accepted_in_order lib raws)))])"
  by (simp add: process_data_def process_loop_result bind_def logged_def ret_def)

section \<open>Sequencing of the run\<close>

lemma io_bind_pure:
  "io_bind (io_pure m) f d =
     (case fst m of
        Inl e \<Rightarrow> ((Inl e, snd m), d)
      | Inr x \<Rightarrow> ((fst (fst (f x d)), snd m @ snd (fst (f x d))), snd (f x d)))"
  by (cases "fst m") (simp_all add: io_bind_def io_pure_def)

lemma io_bind_returns:
  "fst (fst (m d)) = Inr x \<Longrightarrow>
   io_bind m f d =
     ((fst (fst (f x (snd (m d)))), snd (fst (m d)) @ snd (fst (f x (snd (m d))))),
      snd (f x (snd (m d))))"
  by (simp add: io_bind_def)

lemma io_bind_raises:
  "fst (fst (m d)) = Inl e \<Longrightarrow> io_bind m f d = ((Inl e, snd (fst (m d))), snd (m d))"
  by (simp add: io_bind_def)

lemma fetch_ok:
  "fetch_data_from_api (Response 200 raws) s e =
     (Inr (Some raws), [(INFO, ApiRequest s e), (INFO, Received (length raws))])"
  by (simp add: fetch_data_from_api_def logged_def ret_def)

text \<open>
  When no record is accepted the body of \<^verbatim>\<open>main\<close> returns before the first use of the
  database: for an empty response before \<^verbatim>\<open>process_data\<close>, otherwise right after it.
\<close>

lemma main_body_nothing_accepted:
  assumes "api env = Response 200 raws" and "accepted_in_order (python env) raws = []"
  shows "main_body env d =
    ((Inr (),
      [(INFO, Period (START_DATE env) (END_DATE env)),
       (INFO, ApiRequest (START_DATE env) (END_DATE env)),
       (INFO, Received (length raws))]
      @ (if raws = [] then [(INFO, FetchedNothing)]
         else snd (process_data (python env) raws) @ [(WARNING, NothingAfterValidation)])),
     d)"
  using assms
  by (simp add: main_body_def io_bind_pure fetch_ok process_data_result io_pure_def)

section \<open>What the batch processor returns\<close>

text \<open>
  C9, as the specification states it: \<^verbatim>\<open>process\<close> returns the accepted list together
  with the count of rejected records. \<^verbatim>\<open>process_data\<close> returns the list alone: a batch
  of one malformed record and the empty batch return the same value, the empty list,
  and the two counts of rejected records, 1 and 0, are only in the last log line.
\<close>

theorem rejected_count_not_returned_counterexample:
  "fst (process_data sample_lib [PInt 3]) = Inr [] \<and>
   fst (process_data sample_lib []) = Inr [] \<and>
   last (snd (process_data sample_lib [PInt 3])) = (INFO, Processed 0 1) \<and>
   last (snd (process_data sample_lib [])) = (INFO, Processed 0 0)"
  by (simp add: process_data_result accepted_in_order_def
        validate_record_def try_except_def validate_body_not_container)

text \<open>
  C9, amended: \<^verbatim>\<open>process_data\<close> calls the validator on each element in input order
  (the log is the concatenation of the logs of the calls, in that order), returns the
  accepted records in input order and nothing else, and writes the number of accepted
  and the number of rejected records to its last log line. For the empty input it
  returns the empty list and logs zero and zero. When no record is accepted,
  \<^verbatim>\<open>main\<close> ends without creating the schema and without loading: the table is
  unchanged, and after the lines of the fetch and of \<^verbatim>\<open>process_data\<close> the log has only
  the line that says why the run stops and the closing time line.
\<close>

theorem process_data_returns_accepted_in_order:
  "process_data lib raws =
     (Inr (accepted_in_order lib raws),
      (INFO, ProcessingStart) # concat (map (\<lambda>r. snd (validate_record lib r)) raws)
        @ [(INFO, Processed (length (accepted_in_order lib raws))
                    (length raws - length (accepted_in_order lib raws)))]) \<and>
   process_data lib [] = (Inr [], [(INFO, ProcessingStart), (INFO, Processed 0 0)]) \<and>
   (api env = Response 200 raws' \<and> accepted_in_order (python env) raws' = [] \<longrightarrow>
      main env d =
        ((INFO, EtlStart) #
         [(INFO, Period (START_DATE env) (END_DATE env)),
          (INFO, ApiRequest (START_DATE env) (END_DATE env)),
          (INFO, Received (length raws'))]
         @ (if raws' = [] then [(INFO, FetchedNothing)]
            else snd (process_data (python env) raws') @ [(WARNING, NothingAfterValidation)])
         @ [(INFO, RunTime)],
         d))"
proof (intro conjI impI)
  show "process_data lib raws =
     (Inr (accepted_in_order lib raws),
      (INFO, ProcessingStart) # concat (map (\<lambda>r. snd (validate_record lib r)) raws)
        @ [(INFO, Processed (length (accepted_in_order lib raws))
                    (length raws - length (accepted_in_order lib raws)))])"
    by (rule process_data_result)
  show "process_data lib [] = (Inr [], [(INFO, ProcessingStart), (INFO, Processed 0 0)])"
    by (simp add: process_data_result accepted_in_order_def)
next
  assume "api env = Response 200 raws' \<and> accepted_in_order (python env) raws' = []"
  then have "main_body env d =
    ((Inr (),
      [(INFO, Period (START_DATE env) (END_DATE env)),
       (INFO, ApiRequest (START_DATE env) (END_DATE env)),
       (INFO, Received (length raws'))]
      @ (if raws' = [] then [(INFO, FetchedNothing)]
         else snd (process_data (python env) raws') @ [(WARNING, NothingAfterValidation)])),
     d)"
    by (simp add: main_body_nothing_accepted)
  then show "main env d =
        ((INFO, EtlStart) #
         [(INFO, Period (START_DATE env) (END_DATE env)),
          (INFO, ApiRequest (START_DATE env) (END_DATE env)),
          (INFO, Received (length raws'))]
         @ (if raws' = [] then [(INFO, FetchedNothing)]
            else snd (process_data (python env) raws') @ [(WARNING, NothingAfterValidation)])
         @ [(INFO, RunTime)],
         d)"
    by (simp add: main_def)
qed

lemma accepted_one_malformed: "accepted_in_order sample_lib [PInt 3] = []"
  by (simp add: accepted_in_order_def validate_record_def try_except_def
        validate_body_not_container)

theorem process_data_returns_accepted_in_order_witness:
  "api (sample_env [PInt 3]) = Response 200 [PInt 3] \<and>
   accepted_in_order (python (sample_env [PInt 3])) [PInt 3] = [] \<and>
   main (sample_env [PInt 3]) empty_db =
     ([(INFO, EtlStart),
       (INFO, Period ''2023-05-31 00:00:00.000000'' ''2023-05-31 23:59:59.999999''),
       (INFO, ApiRequest ''2023-05-31 00:00:00.000000'' ''2023-05-31 23:59:59.999999''),
       (INFO, Received 1),
       (INFO, ProcessingStart),
       (ERROR, ValidationError TypeError),
       (INFO, Processed 0 1),
       (WARNING, NothingAfterValidation),
       (INFO, RunTime)],
      empty_db)"
  using process_data_returns_accepted_in_order
    [of sample_lib "[PInt 3]" "sample_env [PInt 3]" "[PInt 3]" empty_db]
  by (simp add: sample_env_def accepted_one_malformed validate_record_def try_except_def
        validate_body_not_container)

section \<open>Bulk load\<close>

lemma rows_in_length: "rows_in srv xs = Inr rows \<Longrightarrow> length rows = length xs"
  by (induction xs arbitrary: rows) (auto split: sum.splits)

lemma rows_in_take:
  "rows_in srv xs = Inr rows \<Longrightarrow> rows_in srv (take n xs) = Inr (take n rows)"
proof (induction xs arbitrary: rows n)
  case Nil
  then show ?case by simp
next
  case (Cons x xs)
  then show ?case by (cases n) (auto split: sum.splits)
qed

lemma rows_in_drop:
  "rows_in srv xs = Inr rows \<Longrightarrow> rows_in srv (drop n xs) = Inr (drop n rows)"
proof (induction xs arbitrary: rows n)
  case Nil
  then show ?case by simp
next
  case (Cons x xs)
  then show ?case by (cases n) (auto split: sum.splits)
qed

lemma rows_in_replicate:
  "pg_row_in srv a = Inr row \<Longrightarrow> rows_in srv (replicate n a) = Inr (replicate n row)"
  by (induction n) simp_all

lemma paginate_Nil [simp]: "paginate n [] = []"
  by simp

lemma paginate_nonempty:
  "0 < n \<Longrightarrow> xs \<noteq> [] \<Longrightarrow> paginate n xs = take n xs # paginate n (drop n xs)"
  by simp

text \<open>
  Without a fault every page is inserted into the open transaction, and
  \<^verbatim>\<open>cursor.rowcount\<close> is left at the size of the last page.
\<close>

lemma execute_pages_ok:
  assumes "table_exists d" and "\<forall>j. flt \<noteq> ExecuteFault j"
  shows "0 < n \<Longrightarrow> rows_in srv xs = Inr rows \<Longrightarrow>
    execute_pages srv flt d k cur (paginate n xs) =
      Inr \<lparr>pending = pending cur @ rows,
           rowcount = (if xs = [] then rowcount cur
                       else int (length (last (paginate n xs))))\<rparr>"
proof (induction n xs arbitrary: rows k cur rule: paginate.induct)
  case (1 n xs)
  note pos = "1.prems"(1) and conv = "1.prems"(2)
  show ?case
  proof (cases "xs = []")
    case True
    with conv show ?thesis by simp
  next
    case False
    let ?cur = "\<lparr>pending = pending cur @ take n rows, rowcount = int (length (take n rows))\<rparr>"
    have ins: "execute_insert srv d cur (take n xs) = Inr ?cur"
      using assms(1) rows_in_take [OF conv] by (simp add: execute_insert_def)
    have rest: "execute_pages srv flt d (Suc k) ?cur (paginate n (drop n xs)) =
      Inr \<lparr>pending = pending ?cur @ drop n rows,
           rowcount = (if drop n xs = [] then rowcount ?cur
                       else int (length (last (paginate n (drop n xs)))))\<rparr>"
      using False pos by (intro "1.IH" rows_in_drop [OF conv]) simp_all
    have len: "length (take n rows) = length (take n xs)"
      using rows_in_length [OF conv] by simp
    have unfold: "paginate n xs = take n xs # paginate n (drop n xs)"
      using pos False by (rule paginate_nonempty)
    have ne: "drop n xs \<noteq> [] \<Longrightarrow> paginate n (drop n xs) \<noteq> []"
      using pos by (subst paginate.simps) simp
    have step: "execute_pages srv flt d k cur (paginate n xs) =
        execute_pages srv flt d (Suc k) ?cur (paginate n (drop n xs))"
      using assms(2) by (subst unfold) (simp add: ins del: paginate.simps)
    have last_eq: "last (paginate n xs) =
        (if drop n xs = [] then take n xs else last (paginate n (drop n xs)))"
      using ne by (subst unfold) (simp del: paginate.simps)
    show ?thesis
      unfolding step rest last_eq
      using False rows_in_length [OF conv] by simp
  qed
qed

lemma load_ok:
  assumes "records \<noteq> []" and "rows_in srv records = Inr rows" and "table_exists d"
  shows "load_data_to_database srv NoFault records d =
    ((Inr (int (length (last (paginate page_size records)))),
      [(INFO, LoadStart (length records)),
       (INFO, Loaded (int (length (last (paginate page_size records)))))]),
     d\<lparr>grader_attempts := grader_attempts d @ rows\<rparr>)"
proof -
  have "execute_values srv NoFault d \<lparr>pending = [], rowcount = - 1\<rparr> records =
      Inr \<lparr>pending = rows, rowcount = int (length (last (paginate page_size records)))\<rparr>"
    unfolding execute_values_def
    using execute_pages_ok [of d NoFault page_size srv records rows 0
        "\<lparr>pending = [], rowcount = - 1\<rparr>"] assms
    by (simp add: page_size_def del: paginate.simps)
  then show ?thesis
    using assms(1)
    by (simp add: load_data_to_database_def load_body_def try_except_def logged_def ret_def
          del: paginate.simps)
qed

text \<open>A batch of at most one page: the value returned is the number of records.\<close>

lemma load_one_page_count:
  assumes "records \<noteq> []" and "length records \<le> page_size"
    and "rows_in srv records = Inr rows" and "table_exists d"
  shows "fst (fst (load_data_to_database srv NoFault records d)) = Inr (int (length records))"
proof -
  have "paginate page_size records = [records]"
    using assms(1,2) by (subst paginate.simps) (simp add: page_size_def)
  with load_ok [OF assms(1,3,4)] show ?thesis by (simp del: paginate.simps)
qed

text \<open>
  Rollback: whenever \<^verbatim>\<open>load_data_to_database\<close> raises, whatever the exception, the
  table is as it was before the call.
\<close>

lemma load_raises_unchanged:
  "fst (fst (load_data_to_database srv flt records d)) = Inl e \<Longrightarrow>
   snd (load_data_to_database srv flt records d) = d"
  by (auto simp: load_data_to_database_def load_body_def try_except_def
        split: if_splits sum.splits)

text \<open>A fault at \<^verbatim>\<open>connect\<close> or at \<^verbatim>\<open>commit\<close> is logged and raised again.\<close>

lemma load_fault_reraised:
  assumes "records \<noteq> []" and "flt = ConnectFault \<or> flt = CommitFault"
    and "\<exists>cur. execute_values srv flt d \<lparr>pending = [], rowcount = - 1\<rparr> records = Inr cur"
  shows "load_data_to_database srv flt records d =
    ((Inl Psycopg2Error,
      [(INFO, LoadStart (length records)), (ERROR, LoadError Psycopg2Error)]), d)"
  using assms
  by (auto simp: load_data_to_database_def load_body_def try_except_def logged_def raise_def)

lemma plain_attempt_row: "pg_row_in sample_srv plain_attempt = Inr plain_row"
  by (simp add: sample_srv_def sample_row_in_def plain_attempt_def plain_row_def plain_time_def
        sample_strptime_def fmt_micro_def fmt_sec_def)

lemma paginate_101:
  "paginate page_size (replicate 101 x) = [replicate 100 x, [x]]"
proof -
  have "paginate 100 (replicate 101 x) = replicate 100 x # paginate 100 (replicate 1 x)"
    by (subst paginate.simps) simp
  also have "paginate 100 (replicate 1 x) = [x] # paginate 100 []"
    by (subst paginate.simps) simp
  finally show ?thesis by (simp add: page_size_def)
qed

text \<open>
  C3. The specification says that bulk load returns exactly the number of rows
  inserted. \<^verbatim>\<open>load_data_to_database\<close> returns \<^verbatim>\<open>cursor.rowcount\<close> after
  \<^verbatim>\<open>execute_values\<close>, which has executed one statement for each page of 100 rows:
  for 101 records it inserts and commits 101 rows, and logs and returns 1.
\<close>

theorem load_returns_last_page_count:
  "load_data_to_database sample_srv NoFault (replicate 101 plain_attempt)
     \<lparr>table_exists = True, grader_attempts = []\<rparr> =
   ((Inr 1, [(INFO, LoadStart 101), (INFO, Loaded 1)]),
    \<lparr>table_exists = True, grader_attempts = replicate 101 plain_row\<rparr>)"
  using load_ok [of "replicate 101 plain_attempt" sample_srv "replicate 101 plain_row"
      "\<lparr>table_exists = True, grader_attempts = []\<rparr>"]
  by (simp add: rows_in_replicate plain_attempt_row paginate_101 del: paginate.simps)

section \<open>Daily statistics\<close>

lemma success_rate_of_value:
  "success_rate_of success submit =
     Inr (if submit > 0
          then PFloat (round2 (float_mul (to_double (of_int success / of_int submit)) 100))
          else PInt 0)"
  by (simp add: success_rate_of_def py_truediv_def)

lemma aggregate_row_submit_nonneg: "0 \<le> aggregate_row ymd rows ! 6"
  by (simp add: aggregate_row_def Let_def count_where_def)

text \<open>
  When the connection and the query work, the function returns the dict of the one
  row the aggregate query gives; a fault on leaving the \<^verbatim>\<open>with\<close> block turns that
  into \<^verbatim>\<open>None\<close>.
\<close>

lemma statistics_body_value:
  assumes "flt \<noteq> ConnectFault" and "flt \<noteq> ExecuteFault 0" and "table_exists d"
    and "pg_date_in srv day = Some ymd"
  shows "statistics_body srv flt day d =
    ((if flt = CommitFault then Inl Psycopg2Error
      else Inr (Some (statistics_of day (aggregate_row ymd (grader_attempts d))))),
     [(INFO, Statistics (statistics_of day (aggregate_row ymd (grader_attempts d))))])"
  using assms
  by (simp add: statistics_body_def execute_statistics_def fetchone_def bind_def
        success_rate_of_value statistics_of_def logged_def ret_def raise_def lift_def Let_def)

lemma statistics_body_fault:
  assumes "flt = ConnectFault \<or> flt = ExecuteFault 0 \<or> \<not> table_exists d
           \<or> pg_date_in srv day = None"
  shows "statistics_body srv flt day d = (Inl Psycopg2Error, [])"
  using assms
  by (auto simp: statistics_body_def execute_statistics_def bind_def raise_def lift_def)

lemma get_daily_statistics_value:
  assumes "flt \<noteq> ConnectFault" and "flt \<noteq> ExecuteFault 0" and "table_exists d"
    and "pg_date_in srv day = Some ymd"
  shows "get_daily_statistics srv flt day d =
    (if flt = CommitFault
     then (Inr None,
           [(INFO, Statistics (statistics_of day (aggregate_row ymd (grader_attempts d)))),
            (ERROR, StatisticsError Psycopg2Error)])
     else (Inr (Some (statistics_of day (aggregate_row ymd (grader_attempts d)))),
           [(INFO, Statistics (statistics_of day (aggregate_row ymd (grader_attempts d))))]))"
  by (simp add: get_daily_statistics_def statistics_body_value [OF assms] try_except_def
        logged_def ret_def)

lemma get_daily_statistics_fault:
  assumes "flt = ConnectFault \<or> flt = ExecuteFault 0 \<or> \<not> table_exists d
           \<or> pg_date_in srv day = None"
  shows "get_daily_statistics srv flt day d =
    (Inr None, [(ERROR, StatisticsError Psycopg2Error)])"
  by (simp add: get_daily_statistics_def statistics_body_fault [OF assms] try_except_def
        logged_def ret_def)

lemma get_daily_statistics_cases:
  obtains (fault) "get_daily_statistics srv flt day d =
      (Inr None, [(ERROR, StatisticsError Psycopg2Error)])"
  | (late_fault) ymd where "flt = CommitFault"
      "get_daily_statistics srv flt day d =
        (Inr None,
         [(INFO, Statistics (statistics_of day (aggregate_row ymd (grader_attempts d)))),
          (ERROR, StatisticsError Psycopg2Error)])"
  | (ok) ymd where "flt \<noteq> ConnectFault" "flt \<noteq> ExecuteFault 0" "flt \<noteq> CommitFault"
      "get_daily_statistics srv flt day d =
        (Inr (Some (statistics_of day (aggregate_row ymd (grader_attempts d)))),
         [(INFO, Statistics (statistics_of day (aggregate_row ymd (grader_attempts d))))])"
proof (cases "flt = ConnectFault \<or> flt = ExecuteFault 0 \<or> \<not> table_exists d
           \<or> pg_date_in srv day = None")
  case True
  then show ?thesis by (rule get_daily_statistics_fault [THEN fault])
next
  case False
  then obtain ymd where "pg_date_in srv day = Some ymd" by auto
  with False have v: "get_daily_statistics srv flt day d =
    (if flt = CommitFault
     then (Inr None,
           [(INFO, Statistics (statistics_of day (aggregate_row ymd (grader_attempts d)))),
            (ERROR, StatisticsError Psycopg2Error)])
     else (Inr (Some (statistics_of day (aggregate_row ymd (grader_attempts d)))),
           [(INFO, Statistics (statistics_of day (aggregate_row ymd (grader_attempts d))))]))"
    by (intro get_daily_statistics_value) simp_all
  show ?thesis
  proof (cases "flt = CommitFault")
    case True
    with v show ?thesis by (intro late_fault [of ymd]) simp_all
  next
    case nc: False
    with v False show ?thesis by (intro ok [of ymd]) simp_all
  qed
qed

lemma get_daily_statistics_returns:
  "\<exists>r. fst (get_daily_statistics srv flt day d) = Inr r"
  by (cases rule: get_daily_statistics_cases [of srv flt day d]) simp_all

text \<open>
  Rounding to two decimals: \<open>round_half_even\<close> is within one half of its argument, so
  \<open>round2 x\<close> is the double nearest to a hundredth \<open>k / 100\<close> that lies within half a
  hundredth of \<open>x\<close>.
\<close>

lemma round_half_even_near: "\<bar>of_int (round_half_even r) - r\<bar> \<le> 1 / 2"
proof -
  have "of_int \<lfloor>r\<rfloor> \<le> r" and "r < of_int \<lfloor>r\<rfloor> + 1" by linarith+
  then show ?thesis by (auto simp: round_half_even_def Let_def)
qed

lemma round2_nearest_hundredth:
  "\<exists>k. round2 x = to_double (of_int k / 100) \<and> \<bar>of_int k / 100 - x\<bar> \<le> 1 / 200"
proof (intro exI conjI)
  show "round2 x = to_double (of_int (round_half_even (x * 100)) / 100)"
    by (simp add: round2_def)
  have "\<bar>of_int (round_half_even (x * 100)) - x * 100\<bar> \<le> 1 / 2"
    by (rule round_half_even_near)
  then show "\<bar>of_int (round_half_even (x * 100)) / 100 - x\<bar> \<le> 1 / 200"
    by (simp add: abs_le_iff field_simps)
qed

text \<open>
  Rounding to binary64: \<open>binade\<close> finds the power of two at or below a positive
  number, so \<open>to_double\<close> keeps 53 significant bits and its result differs from its
  argument by at most the fraction \<open>2\<^sup>-\<^sup>5\<^sup>3\<close> of it.
\<close>

declare bit_length.simps [simp del]

lemma bit_length_bounds:
  "0 < n \<Longrightarrow> 2 ^ (bit_length n - 1) \<le> n \<and> n < 2 ^ bit_length n"
proof (induction n rule: bit_length.induct)
  case (1 n)
  have bl: "bit_length n = Suc (bit_length (n div 2))"
    using "1.prems" by (subst bit_length.simps) simp
  show ?case
  proof (cases "n div 2 = 0")
    case True
    then have "n = 1" using "1.prems" by presburger
    then show ?thesis by (simp add: bit_length.simps [of 1] bit_length.simps [of 0])
  next
    case False
    then have pos: "0 < n div 2" using "1.prems" by presburger
    with "1.IH" "1.prems" have ih: "2 ^ (bit_length (n div 2) - 1) \<le> n div 2"
      "n div 2 < 2 ^ bit_length (n div 2)" by simp_all
    have ge1: "1 \<le> bit_length (n div 2)"
      using pos by (subst bit_length.simps) simp
    then have "(2::int) ^ bit_length (n div 2) = 2 * 2 ^ (bit_length (n div 2) - 1)"
      by (cases "bit_length (n div 2)") simp_all
    with ih show ?thesis unfolding bl by (simp del: bit_length.simps) presburger
  qed
qed

lemma pow2_powi: "pow2 k = 2 powi k"
  by (simp add: pow2_def power_int_def power_one_over inverse_eq_divide)

lemma powi_diff_nat: "(2 ^ a / 2 ^ b :: rat) = 2 powi (int a - int b)"
  by (simp add: power_int_diff)

lemma quotient_below_power:
  fixes p q :: int and a b :: nat
  assumes "0 < p" "p < 2 ^ a" "2 ^ (b - 1) \<le> q" "1 \<le> b"
  shows "(of_int p / of_int q :: rat) < 2 powi (int a - int b + 1)"
proof -
  have e: "int a - int b + 1 = int a - int (b - 1)" using assms(4) by simp
  have "(of_int p :: rat) < of_int (2 ^ a)" using assms(2) by (simp only: of_int_less_iff)
  then have 1: "(of_int p :: rat) < 2 ^ a" by simp
  have "(of_int (2 ^ (b - 1)) :: rat) \<le> of_int q" using assms(3) by (simp only: of_int_le_iff)
  then have 2: "(2 ^ (b - 1) :: rat) \<le> of_int q" by simp
  have "(of_int p / of_int q :: rat) < 2 ^ a / 2 ^ (b - 1)"
    using assms(1) 1 2 by (intro frac_less) simp_all
  then show ?thesis unfolding e powi_diff_nat .
qed

lemma quotient_above_power:
  fixes p q :: int and a b :: nat
  assumes "0 < q" "2 ^ (a - 1) \<le> p" "q < 2 ^ b" "1 \<le> a"
  shows "(2 powi (int a - int b - 1) :: rat) < of_int p / of_int q"
proof -
  have e: "int a - int b - 1 = int (a - 1) - int b" using assms(4) by simp
  have "(of_int (2 ^ (a - 1)) :: rat) \<le> of_int p" using assms(2) by (simp only: of_int_le_iff)
  then have 1: "(2 ^ (a - 1) :: rat) \<le> of_int p" by simp
  have "(of_int q :: rat) < of_int (2 ^ b)" using assms(3) by (simp only: of_int_less_iff)
  then have 2: "(of_int q :: rat) < 2 ^ b" by simp
  have "(2 ^ (a - 1) / 2 ^ b :: rat) < of_int p / of_int q"
    using assms(1) 1 2 by (intro frac_less2) simp_all
  then show ?thesis unfolding e powi_diff_nat .
qed

lemma bit_length_pos: "0 < n \<Longrightarrow> 1 \<le> bit_length n"
  by (subst bit_length.simps) simp

lemma binade_bounds:
  assumes "0 < r"
  shows "pow2 (binade r) \<le> r \<and> r < pow2 (binade r + 1)"
proof -
  obtain p q where pq: "quotient_of r = (p, q)" by (cases "quotient_of r")
  have q: "0 < q" using quotient_of_denom_pos [OF pq] .
  have r: "r = of_int p / of_int q" using quotient_of_div [OF pq] .
  have p: "0 < p" using assms q unfolding r by (simp add: zero_less_divide_iff)
  let ?k = "int (bit_length p) - int (bit_length q)"
  have up: "r < 2 powi (?k + 1)"
    unfolding r using p q bit_length_bounds [of p] bit_length_bounds [of q] bit_length_pos [of q]
    by (intro quotient_below_power) simp_all
  have lo: "2 powi (?k - 1) < r"
    unfolding r using p q bit_length_bounds [of p] bit_length_bounds [of q] bit_length_pos [of p]
    by (intro quotient_above_power) simp_all
  have b: "binade r = (if 2 powi ?k \<le> r then ?k else ?k - 1)"
    by (simp add: binade_def pq pow2_powi)
  show ?thesis
    using up lo unfolding b pow2_powi by (auto simp: less_imp_le)
qed

lemma to_double_error: "\<bar>to_double r - r\<bar> \<le> \<bar>r\<bar> / 2 ^ 53"
proof (cases "r = 0")
  case True
  then show ?thesis by (simp add: to_double_def)
next
  case False
  define e where "e = binade \<bar>r\<bar> - 52"
  have pe: "0 < pow2 e" by (simp add: pow2_def)
  have td: "to_double r = of_int (round_half_even (r / pow2 e)) * pow2 e"
    using False by (simp add: to_double_def e_def Let_def)
  have "to_double r - r = (of_int (round_half_even (r / pow2 e)) - r / pow2 e) * pow2 e"
    using pe unfolding td by (simp add: field_simps)
  then have "\<bar>to_double r - r\<bar> = \<bar>of_int (round_half_even (r / pow2 e)) - r / pow2 e\<bar> * pow2 e"
    using pe by (simp add: abs_mult)
  also have "\<dots> \<le> 1 / 2 * pow2 e"
    using pe round_half_even_near [of "r / pow2 e"] by (intro mult_right_mono) simp_all
  also have "pow2 e = pow2 (binade \<bar>r\<bar>) / 2 ^ 52"
    unfolding e_def pow2_powi by (simp add: power_int_diff)
  also have "1 / 2 * (pow2 (binade \<bar>r\<bar>) / 2 ^ 52) \<le> 1 / 2 * (\<bar>r\<bar> / 2 ^ 52)"
    using binade_bounds [of "\<bar>r\<bar>"] False by (intro mult_left_mono divide_right_mono) simp_all
  also have "\<dots> = \<bar>r\<bar> / 2 ^ 53" by simp
  finally show ?thesis .
qed

text \<open>
  C6. In every dict \<^verbatim>\<open>get_daily_statistics\<close> returns, \<open>success_rate\<close> is the integer 0
  when \<open>submit_count\<close> is zero, and otherwise the float
  \<^verbatim>\<open>round(successful_attempts / submit_count * 100, 2)\<close>: the quotient and the product
  in binary floating point, and that product rounded to two decimal places, that is,
  the double of a whole number of hundredths \<open>k / 100\<close> which differs from the product by
  at most half a hundredth. In exact arithmetic: the quotient \<open>q\<close>, the product \<open>x\<close> and
  the rate each differ from the exact quotient, from \<open>q * 100\<close> and from \<open>k / 100\<close> by at
  most the fraction \<open>2\<^sup>-\<^sup>5\<^sup>3\<close> of that number. The function never raises, so no
  division fault leaves it.
\<close>

theorem success_rate_rounded_or_zero:
  "(\<exists>r. fst (get_daily_statistics srv flt day d) = Inr r) \<and>
   (fst (get_daily_statistics srv flt day d) = Inr (Some st) \<longrightarrow>
      success_rate st =
        (if submit_count st = 0 then PInt 0
         else PFloat (round2 (float_mul
                (to_double (of_int (successful_attempts st) / of_int (submit_count st))) 100))) \<and>
      (submit_count st \<noteq> 0 \<longrightarrow>
         (\<exists>k. success_rate st = PFloat (to_double (of_int k / 100)) \<and>
              \<bar>of_int k / 100
                - float_mul (to_double (of_int (successful_attempts st)
                                          / of_int (submit_count st))) 100\<bar>
                \<le> 1 / 200) \<and>
         (\<exists>(q::rat) (x::rat) k rate.
              \<bar>q - of_int (successful_attempts st) / of_int (submit_count st)\<bar>
                \<le> \<bar>of_int (successful_attempts st) / of_int (submit_count st)\<bar> / 2 ^ 53 \<and>
              \<bar>x - q * 100\<bar> \<le> \<bar>q * 100\<bar> / 2 ^ 53 \<and>
              \<bar>of_int k / 100 - x\<bar> \<le> 1 / 200 \<and>
              \<bar>rate - of_int k / 100\<bar> \<le> \<bar>of_int k / 100\<bar> / 2 ^ 53 \<and>
              success_rate st = PFloat rate)))"
proof (intro conjI impI)
  show "\<exists>r. fst (get_daily_statistics srv flt day d) = Inr r"
    by (rule get_daily_statistics_returns)
next
  assume st: "fst (get_daily_statistics srv flt day d) = Inr (Some st)"
  let ?q = "to_double (of_int (successful_attempts st) / of_int (submit_count st))"
  let ?x = "float_mul ?q 100"
  show rate: "success_rate st =
        (if submit_count st = 0 then PInt 0 else PFloat (round2 ?x))"
  proof (cases rule: get_daily_statistics_cases [of srv flt day d])
    case fault
    with st show ?thesis by simp
  next
    case (late_fault ymd)
    with st show ?thesis by simp
  next
    case (ok ymd)
    with st have "st = statistics_of day (aggregate_row ymd (grader_attempts d))" by simp
    then show ?thesis
      using aggregate_row_submit_nonneg [of ymd "grader_attempts d"]
      by (auto simp: statistics_of_def stats_dict_def)
  qed
  assume "submit_count st \<noteq> 0"
  with rate have r2: "success_rate st = PFloat (round2 ?x)"
    by simp
  from round2_nearest_hundredth [of ?x]
  obtain k where k: "round2 ?x = to_double (of_int k / 100)"
    and near: "\<bar>of_int k / 100 - ?x\<bar> \<le> 1 / 200"
    by blast
  from r2 k near
  show "\<exists>k. success_rate st = PFloat (to_double (of_int k / 100)) \<and>
      \<bar>of_int k / 100 - ?x\<bar> \<le> 1 / 200"
    by auto
  have q: "\<bar>?q - of_int (successful_attempts st) / of_int (submit_count st)\<bar>
      \<le> \<bar>of_int (successful_attempts st) / of_int (submit_count st)\<bar> / 2 ^ 53"
    by (rule to_double_error)
  have x: "\<bar>?x - ?q * 100\<bar> \<le> \<bar>?q * 100\<bar> / 2 ^ 53"
    using to_double_error [of "?q * 100"] by (simp add: float_mul_def)
  have e: "\<bar>to_double (of_int k / 100) - of_int k / 100\<bar> \<le> \<bar>of_int k / 100\<bar> / 2 ^ 53"
    by (rule to_double_error)
  from q x near e r2 k
  show "\<exists>(q::rat) (x::rat) k rate.
      \<bar>q - of_int (successful_attempts st) / of_int (submit_count st)\<bar>
        \<le> \<bar>of_int (successful_attempts st) / of_int (submit_count st)\<bar> / 2 ^ 53 \<and>
      \<bar>x - q * 100\<bar> \<le> \<bar>q * 100\<bar> / 2 ^ 53 \<and>
      \<bar>of_int k / 100 - x\<bar> \<le> 1 / 200 \<and>
      \<bar>rate - of_int k / 100\<bar> \<le> \<bar>of_int k / 100\<bar> / 2 ^ 53 \<and>
      success_rate st = PFloat rate"
    by (intro exI [of _ ?q] exI [of _ ?x] exI [of _ k]
          exI [of _ "to_double (of_int k / 100)"]) simp
qed

lemma example_rows_aggregate:
  "aggregate_row (2023, 5, 31) example_rows = [10, 3, 1, 6, 1, 6, 4]"
  by (simp add: aggregate_row_def example_rows_def plain_row_def plain_time_def date_of_def
        count_where_def Let_def eval_nat_numeral)

lemma rate_three_of_four: "round2 (float_mul (to_double (3 / 4)) 100) = 75"
  by code_simp

lemma one_of_three_aggregate:
  "aggregate_row (2023, 5, 31) one_of_three_rows = [3, 1, 2, 0, 1, 0, 3]"
  by (simp add: aggregate_row_def one_of_three_rows_def plain_row_def plain_time_def date_of_def
        count_where_def Let_def)

lemma rate_one_of_three:
  "round2 (float_mul (to_double (1 / 3)) 100) = to_double (3333 / 100)"
  by code_simp

lemma rate_one_of_three_near:
  "\<bar>3333 / 100 - float_mul (to_double (1 / 3)) 100\<bar> \<le> 1 / 200"
  by code_simp

lemma product_one_of_three:
  "float_mul (to_double (1 / 3)) 100 = 2345624805922133 / 70368744177664"
  by code_simp

lemma double_of_3333_hundredths:
  "to_double (3333 / 100) = 2345390243441541 / 70368744177664"
  by code_simp

text \<open>
  The example of the specification: ten rows, four submits of which three are
  correct, give the rate 75.0. One correct submit of three gives the product
  \<open>33.33333333333333\<close>, which is rounded to 33.33, the double
  \<open>2345390243441541 / 2\<^sup>4\<^sup>6\<close>. A table with no submit gives the integer 0.
\<close>

theorem success_rate_rounded_or_zero_witness:
  "fst (get_daily_statistics sample_srv NoFault ''2023-05-31''
          \<lparr>table_exists = True, grader_attempts = example_rows\<rparr>)
     = Inr (Some \<lparr>date = ''2023-05-31'', total_attempts = 10, successful_attempts = 3,
                  failed_attempts = 1, run_attempts = 6, unique_users = 1, run_count = 6,
                  submit_count = 4, success_rate = PFloat 75\<rparr>) \<and>
   fst (get_daily_statistics sample_srv NoFault ''2023-05-31''
          \<lparr>table_exists = True, grader_attempts = one_of_three_rows\<rparr>)
     = Inr (Some \<lparr>date = ''2023-05-31'', total_attempts = 3, successful_attempts = 1,
                  failed_attempts = 2, run_attempts = 0, unique_users = 1, run_count = 0,
                  submit_count = 3, success_rate = PFloat (to_double (3333 / 100))\<rparr>) \<and>
   float_mul (to_double (1 / 3)) 100 = 2345624805922133 / 70368744177664 \<and>
   to_double (3333 / 100) = 2345390243441541 / 70368744177664 \<and>
   \<bar>3333 / 100 - float_mul (to_double (1 / 3)) 100\<bar> \<le> 1 / 200 \<and>
   fst (get_daily_statistics sample_srv NoFault ''2023-05-31''
          \<lparr>table_exists = True, grader_attempts = [plain_row]\<rparr>)
     = Inr (Some \<lparr>date = ''2023-05-31'', total_attempts = 1, successful_attempts = 0,
                  failed_attempts = 0, run_attempts = 1, unique_users = 1, run_count = 1,
                  submit_count = 0, success_rate = PInt 0\<rparr>)"
proof -
  have a: "get_daily_statistics sample_srv NoFault ''2023-05-31''
          \<lparr>table_exists = True, grader_attempts = example_rows\<rparr>
     = (Inr (Some (statistics_of ''2023-05-31'' [10, 3, 1, 6, 1, 6, 4])),
        [(INFO, Statistics (statistics_of ''2023-05-31'' [10, 3, 1, 6, 1, 6, 4]))])"
    using get_daily_statistics_value [of NoFault
        "\<lparr>table_exists = True, grader_attempts = example_rows\<rparr>" sample_srv
        "''2023-05-31''" "(2023, 5, 31)"]
    by (simp add: sample_srv_def sample_date_in_def example_rows_aggregate)
  have b: "get_daily_statistics sample_srv NoFault ''2023-05-31''
          \<lparr>table_exists = True, grader_attempts = [plain_row]\<rparr>
     = (Inr (Some (statistics_of ''2023-05-31'' [1, 0, 0, 1, 1, 1, 0])),
        [(INFO, Statistics (statistics_of ''2023-05-31'' [1, 0, 0, 1, 1, 1, 0]))])"
    using get_daily_statistics_value [of NoFault
        "\<lparr>table_exists = True, grader_attempts = [plain_row]\<rparr>" sample_srv
        "''2023-05-31''" "(2023, 5, 31)"]
    by (simp add: sample_srv_def sample_date_in_def aggregate_row_def plain_row_def
          plain_time_def date_of_def count_where_def Let_def)
  have c: "get_daily_statistics sample_srv NoFault ''2023-05-31''
          \<lparr>table_exists = True, grader_attempts = one_of_three_rows\<rparr>
     = (Inr (Some (statistics_of ''2023-05-31'' [3, 1, 2, 0, 1, 0, 3])),
        [(INFO, Statistics (statistics_of ''2023-05-31'' [3, 1, 2, 0, 1, 0, 3]))])"
    using get_daily_statistics_value [of NoFault
        "\<lparr>table_exists = True, grader_attempts = one_of_three_rows\<rparr>" sample_srv
        "''2023-05-31''" "(2023, 5, 31)"]
    by (simp add: sample_srv_def sample_date_in_def one_of_three_aggregate)
  have t75: "fst (get_daily_statistics sample_srv NoFault ''2023-05-31''
          \<lparr>table_exists = True, grader_attempts = example_rows\<rparr>)
     = Inr (Some \<lparr>date = ''2023-05-31'', total_attempts = 10, successful_attempts = 3,
                  failed_attempts = 1, run_attempts = 6, unique_users = 1, run_count = 6,
                  submit_count = 4, success_rate = PFloat 75\<rparr>)"
    using success_rate_rounded_or_zero [of sample_srv NoFault "''2023-05-31''"
        "\<lparr>table_exists = True, grader_attempts = example_rows\<rparr>"
        "statistics_of ''2023-05-31'' [10, 3, 1, 6, 1, 6, 4]"]
    by (simp add: a statistics_of_def stats_dict_def rate_three_of_four)
  have t33: "fst (get_daily_statistics sample_srv NoFault ''2023-05-31''
          \<lparr>table_exists = True, grader_attempts = one_of_three_rows\<rparr>)
     = Inr (Some \<lparr>date = ''2023-05-31'', total_attempts = 3, successful_attempts = 1,
                  failed_attempts = 2, run_attempts = 0, unique_users = 1, run_count = 0,
                  submit_count = 3, success_rate = PFloat (to_double (3333 / 100))\<rparr>)"
    using success_rate_rounded_or_zero [of sample_srv NoFault "''2023-05-31''"
        "\<lparr>table_exists = True, grader_attempts = one_of_three_rows\<rparr>"
        "statistics_of ''2023-05-31'' [3, 1, 2, 0, 1, 0, 3]"]
    by (simp add: c statistics_of_def stats_dict_def rate_one_of_three)
  have t0: "fst (get_daily_statistics sample_srv NoFault ''2023-05-31''
          \<lparr>table_exists = True, grader_attempts = [plain_row]\<rparr>)
     = Inr (Some \<lparr>date = ''2023-05-31'', total_attempts = 1, successful_attempts = 0,
                  failed_attempts = 0, run_attempts = 1, unique_users = 1, run_count = 1,
                  submit_count = 0, success_rate = PInt 0\<rparr>)"
    using success_rate_rounded_or_zero [of sample_srv NoFault "''2023-05-31''"
        "\<lparr>table_exists = True, grader_attempts = [plain_row]\<rparr>"
        "statistics_of ''2023-05-31'' [1, 0, 0, 1, 1, 1, 0]"]
    by (simp add: b statistics_of_def stats_dict_def)
  from t75 t33 t0 product_one_of_three double_of_3333_hundredths rate_one_of_three_near
  show ?thesis by blast
qed

section \<open>A run that reaches the aggregate\<close>

lemma upload_returns: "\<exists>b. fst (upload_to_google_sheets sh st) = Inr b"
  by (auto simp: upload_to_google_sheets_def)

lemma accepted_nonempty_input: "accepted_in_order lib raws \<noteq> [] \<Longrightarrow> raws \<noteq> []"
  by (auto simp: accepted_in_order_def)

text \<open>
  The log and the table of a run in which records are accepted, the schema and the
  load succeed and the configured start has a first word: after the load the run
  cannot fail any more. The statistics call never raises, publishing is called exactly
  when the statistics are not \<^verbatim>\<open>None\<close>, and the run is marked successful.
\<close>

lemma main_reaches_aggregate:
  assumes api: "api env = Response 200 raws"
    and acc: "accepted_in_order (python env) raws \<noteq> []"
    and create: "create_fault env = NoFault"
    and load: "load_data_to_database (postgres env) (load_fault env)
        (accepted_in_order (python env) raws) (d\<lparr>table_exists := True\<rparr>) = ((Inr n, lg), d')"
    and day: "split_first (START_DATE env) = Inr day"
  shows "main env d =
    ([(INFO, EtlStart),
      (INFO, Period (START_DATE env) (END_DATE env)),
      (INFO, ApiRequest (START_DATE env) (END_DATE env)),
      (INFO, Received (length raws))]
     @ snd (process_data (python env) raws)
     @ [(INFO, TableReady)] @ lg @ [(INFO, EtlDone n)]
     @ snd (get_daily_statistics (postgres env) (stats_fault env) day d')
     @ (case fst (get_daily_statistics (postgres env) (stats_fault env) day d') of
          Inr (Some st) \<Rightarrow> snd (upload_to_google_sheets (sheets env) st)
        | _ \<Rightarrow> [])
     @ [(INFO, RunSuccess), (INFO, RunTime)],
     d')"
proof -
  let ?stats = "get_daily_statistics (postgres env) (stats_fault env) day d'"
  from get_daily_statistics_returns obtain r where r: "fst ?stats = Inr r" by blast
  have tail: "io_bind (io_read (get_daily_statistics (postgres env) (stats_fault env) day))
       (\<lambda>stats. io_bind
          (case stats of
             Some st \<Rightarrow> io_pure (bind (upload_to_google_sheets (sheets env) st) (\<lambda>b. ret ()))
           | None \<Rightarrow> io_pure (ret ()))
          (\<lambda>u. io_pure (logged INFO RunSuccess (ret ())))) d' =
     ((Inr (),
       snd ?stats
       @ (case fst ?stats of
            Inr (Some st) \<Rightarrow> snd (upload_to_google_sheets (sheets env) st)
          | _ \<Rightarrow> [])
       @ [(INFO, RunSuccess)]), d')"
  proof (cases r)
    case None
    with r show ?thesis
      by (simp add: io_bind_def io_read_def io_pure_def logged_def ret_def)
  next
    case (Some st)
    from upload_returns obtain b where "fst (upload_to_google_sheets (sheets env) st) = Inr b"
      by blast
    with r Some show ?thesis
      by (simp add: io_bind_def io_read_def io_pure_def bind_def logged_def ret_def)
  qed
  from acc have ne: "raws \<noteq> []" by (rule accepted_nonempty_input)
  have "main_body env d =
    ((Inr (),
      [(INFO, Period (START_DATE env) (END_DATE env)),
       (INFO, ApiRequest (START_DATE env) (END_DATE env)),
       (INFO, Received (length raws))]
      @ snd (process_data (python env) raws)
      @ [(INFO, TableReady)] @ lg @ [(INFO, EtlDone n)]
      @ snd ?stats
      @ (case fst ?stats of
           Inr (Some st) \<Rightarrow> snd (upload_to_google_sheets (sheets env) st)
         | _ \<Rightarrow> [])
      @ [(INFO, RunSuccess)]), d')"
    unfolding main_body_def
    using api acc ne create load day
    by (simp add: io_bind_pure fetch_ok process_data_result)
      (simp add: io_bind_def [of "create_database_table NoFault"]
         io_bind_def [of "load_data_to_database (postgres env) (load_fault env)
           (accepted_in_order (python env) raws)"]
         create_database_table_def io_bind_pure tail)
  then show ?thesis by (simp add: main_def)
qed

lemma main_after_load:
  assumes "reaches_aggregate env d raws n lg d' day"
  shows "main env d =
    (log_before_aggregate env raws n lg
     @ snd (get_daily_statistics (postgres env) (stats_fault env) day d')
     @ (case fst (get_daily_statistics (postgres env) (stats_fault env) day d') of
          Inr (Some st) \<Rightarrow> snd (upload_to_google_sheets (sheets env) st)
        | _ \<Rightarrow> [])
     @ [(INFO, RunSuccess), (INFO, RunTime)],
     d')"
  using assms main_reaches_aggregate [of env raws d n lg d' day]
  by (simp add: reaches_aggregate_def log_before_aggregate_def)

section \<open>A day without rows\<close>




lemma june_accepted: "accepted_in_order sample_lib [june_record] = [june_attempt]"
  by (simp add: accepted_in_order_def june_record_def june_attempt_def plain_attempt_def
        validate_unfold sample_unfold)

lemma june_row_in: "rows_in sample_srv [june_attempt] = Inr [june_row]"
  by (simp add: sample_srv_def sample_row_in_def june_attempt_def plain_attempt_def
        june_row_def plain_row_def sample_strptime_def fmt_micro_def fmt_sec_def
        isinstance_bool_def)

lemma paginate_one: "paginate page_size [x] = [[x]]"
  by (simp add: page_size_def)

lemma june_load:
  "load_data_to_database sample_srv NoFault [june_attempt] (empty_db\<lparr>table_exists := True\<rparr>) =
     ((Inr 1, [(INFO, LoadStart 1), (INFO, Loaded 1)]),
      \<lparr>table_exists = True, grader_attempts = [june_row]\<rparr>)"
  using load_ok [OF _ june_row_in, of "empty_db\<lparr>table_exists := True\<rparr>"]
  by (simp add: paginate_one empty_db_def del: paginate.simps)

lemma default_start_day: "split_first ''2023-05-31 00:00:00.000000'' = Inr ''2023-05-31''"
  by (simp add: split_first_def is_space_def)

lemma june_run_reaches_aggregate:
  "reaches_aggregate ((sample_env [june_record])\<lparr>stats_fault := flt\<rparr>) empty_db [june_record] 1
     [(INFO, LoadStart 1), (INFO, Loaded 1)]
     \<lparr>table_exists = True, grader_attempts = [june_row]\<rparr> ''2023-05-31''"
  by (simp add: reaches_aggregate_def sample_env_def june_accepted june_load default_start_day)

lemma june_process_log:
  "snd (process_data sample_lib [june_record]) =
     [(INFO, ProcessingStart), (INFO, Processed 1 0)]"
  by (simp add: process_data_result june_accepted)
    (simp add: june_record_def validate_unfold sample_unfold)

lemma june_log_before_aggregate:
  "log_before_aggregate ((sample_env [june_record])\<lparr>stats_fault := flt\<rparr>) [june_record] 1
     [(INFO, LoadStart 1), (INFO, Loaded 1)] =
   [(INFO, EtlStart),
    (INFO, Period ''2023-05-31 00:00:00.000000'' ''2023-05-31 23:59:59.999999''),
    (INFO, ApiRequest ''2023-05-31 00:00:00.000000'' ''2023-05-31 23:59:59.999999''),
    (INFO, Received 1),
    (INFO, ProcessingStart), (INFO, Processed 1 0),
    (INFO, TableReady),
    (INFO, LoadStart 1), (INFO, Loaded 1),
    (INFO, EtlDone 1)]"
  by (simp add: log_before_aggregate_def sample_env_def june_process_log)







section \<open>A fault in the aggregate query\<close>

text \<open>
  C10. When the aggregate query faults (at \<^verbatim>\<open>connect\<close>, at \<^verbatim>\<open>execute\<close> or on leaving
  the \<^verbatim>\<open>with\<close> block), \<^verbatim>\<open>get_daily_statistics\<close> does not raise: it logs the error and
  returns \<^verbatim>\<open>None\<close>. A run that has reached the aggregate step then skips publishing
  and ends with the line that marks it successful, followed by the closing time line.
\<close>

theorem statistics_fault_not_fatal:
  "(flt = ConnectFault \<or> flt = ExecuteFault 0 \<or> flt = CommitFault \<longrightarrow>
      fst (get_daily_statistics srv flt day d) = Inr None \<and>
      last (snd (get_daily_statistics srv flt day d)) = (ERROR, StatisticsError Psycopg2Error)) \<and>
   (reaches_aggregate env d0 raws n lg d' day' \<and>
    (stats_fault env = ConnectFault \<or> stats_fault env = ExecuteFault 0
       \<or> stats_fault env = CommitFault) \<longrightarrow>
      main env d0 =
        (log_before_aggregate env raws n lg
         @ snd (get_daily_statistics (postgres env) (stats_fault env) day' d')
         @ [(INFO, RunSuccess), (INFO, RunTime)], d'))"
proof -
  have none: "fst (get_daily_statistics srv' f day'' d'') = Inr None \<and>
      last (snd (get_daily_statistics srv' f day'' d'')) = (ERROR, StatisticsError Psycopg2Error)"
    if "f = ConnectFault \<or> f = ExecuteFault 0 \<or> f = CommitFault" for srv' f day'' d''
    using that by (cases rule: get_daily_statistics_cases [of srv' f day'' d'']) auto
  show ?thesis
  proof (intro conjI impI)
    assume "flt = ConnectFault \<or> flt = ExecuteFault 0 \<or> flt = CommitFault"
    then show "fst (get_daily_statistics srv flt day d) = Inr None"
      and "last (snd (get_daily_statistics srv flt day d)) = (ERROR, StatisticsError Psycopg2Error)"
      using none by blast+
  next
    assume h: "reaches_aggregate env d0 raws n lg d' day' \<and>
      (stats_fault env = ConnectFault \<or> stats_fault env = ExecuteFault 0
        \<or> stats_fault env = CommitFault)"
    then have "fst (get_daily_statistics (postgres env) (stats_fault env) day' d') = Inr None"
      using none by blast
    moreover from h have "reaches_aggregate env d0 raws n lg d' day'" by simp
    note main_after_load [OF this]
    ultimately show "main env d0 =
        (log_before_aggregate env raws n lg
         @ snd (get_daily_statistics (postgres env) (stats_fault env) day' d')
         @ [(INFO, RunSuccess), (INFO, RunTime)], d')"
      by simp
  qed
qed

theorem statistics_fault_not_fatal_witness:
  "get_daily_statistics sample_srv CommitFault ''2023-05-31''
     \<lparr>table_exists = True, grader_attempts = example_rows\<rparr> =
     (Inr None,
      [(INFO, Statistics (statistics_of ''2023-05-31'' [10, 3, 1, 6, 1, 6, 4])),
       (ERROR, StatisticsError Psycopg2Error)]) \<and>
   reaches_aggregate ((sample_env [june_record])\<lparr>stats_fault := ExecuteFault 0\<rparr>) empty_db
     [june_record] 1 [(INFO, LoadStart 1), (INFO, Loaded 1)]
     \<lparr>table_exists = True, grader_attempts = [june_row]\<rparr> ''2023-05-31'' \<and>
   main ((sample_env [june_record])\<lparr>stats_fault := ExecuteFault 0\<rparr>) empty_db =
     ([(INFO, EtlStart),
       (INFO, Period ''2023-05-31 00:00:00.000000'' ''2023-05-31 23:59:59.999999''),
       (INFO, ApiRequest ''2023-05-31 00:00:00.000000'' ''2023-05-31 23:59:59.999999''),
       (INFO, Received 1),
       (INFO, ProcessingStart), (INFO, Processed 1 0),
       (INFO, TableReady),
       (INFO, LoadStart 1), (INFO, Loaded 1),
       (INFO, EtlDone 1),
       (ERROR, StatisticsError Psycopg2Error),
       (INFO, RunSuccess), (INFO, RunTime)],
      \<lparr>table_exists = True, grader_attempts = [june_row]\<rparr>)"
proof -
  have a: "get_daily_statistics sample_srv CommitFault ''2023-05-31''
     \<lparr>table_exists = True, grader_attempts = example_rows\<rparr> =
     (Inr None,
      [(INFO, Statistics (statistics_of ''2023-05-31'' [10, 3, 1, 6, 1, 6, 4])),
       (ERROR, StatisticsError Psycopg2Error)])"
    using get_daily_statistics_value [of CommitFault
        "\<lparr>table_exists = True, grader_attempts = example_rows\<rparr>" sample_srv
        "''2023-05-31''" "(2023, 5, 31)"]
    by (simp add: sample_srv_def sample_date_in_def example_rows_aggregate)
  have b: "get_daily_statistics sample_srv (ExecuteFault 0) ''2023-05-31''
     \<lparr>table_exists = True, grader_attempts = [june_row]\<rparr> =
     (Inr None, [(ERROR, StatisticsError Psycopg2Error)])"
    by (rule get_daily_statistics_fault) simp
  have c: "postgres ((sample_env [june_record])\<lparr>stats_fault := flt\<rparr>) = sample_srv"
    "stats_fault ((sample_env [june_record])\<lparr>stats_fault := flt\<rparr>) = flt" for flt
    by (simp_all add: sample_env_def)
  show ?thesis
    using
      statistics_fault_not_fatal [of CommitFault sample_srv "''2023-05-31''"
        "\<lparr>table_exists = True, grader_attempts = example_rows\<rparr>"
        "(sample_env [june_record])\<lparr>stats_fault := ExecuteFault 0\<rparr>" empty_db "[june_record]" 1
        "[(INFO, LoadStart 1), (INFO, Loaded 1)]"
        "\<lparr>table_exists = True, grader_attempts = [june_row]\<rparr>" "''2023-05-31''"]
      june_run_reaches_aggregate [of "ExecuteFault 0"]
    unfolding june_log_before_aggregate
    by (simp add: a b c)
qed

end
